theory Spec2Isabelle
  imports Complex_Main
begin

section \<open>Nanomaterial toxicity service: the request handlers\<close>

text \<open>
  The two Flask applications (\<^verbatim>\<open>webapp/app.py\<close> and \<^verbatim>\<open>api/index.py\<close>) define the
  handlers \<^verbatim>\<open>predict\<close>, \<^verbatim>\<open>detailed_analysis\<close> and \<^verbatim>\<open>health_check\<close> with the same
  bodies, so one embedding serves both files.

  Conventions of the embedding:
  \<^item> A float is the real number it denotes, and float arithmetic rounds to binary64
    (see below); Python's unbounded integers are \<open>int\<close>. A JSON number written with a
    fraction or an exponent arrives as a float: \<open>JFloat x\<close> carries that float, which
    \<^verbatim>\<open>float\<close> returns unchanged. The type does not restrict \<open>x\<close> to binary64 numbers, so
    what is proved for every request holds in particular for the requests a parser can
    produce.
  \<^item> The value returned by \<^verbatim>\<open>request.get_json()\<close> is a \<open>json\<close> value (\<open>JNull\<close> is
    Python's \<^verbatim>\<open>None\<close>), or the call raises; a JSON object is the association list of
    its entries, read with \<open>map_of\<close>.
  \<^item> Every \<^verbatim>\<open>raise\<close> is the \<open>Inl\<close> branch of a sum; the \<^verbatim>\<open>except Exception\<close> clause
    of a handler is the place where such a branch becomes a 500 response.
  \<^item> The pickled classifier and scaler are external objects: records of the functions
    the handlers call on them, each of which may raise.
  \<^item> A handler returns its response together with the list of calls it made on the
    scaler and the classifier, in order.
  \<^item> The status log keeps the \<^verbatim>\<open>step\<close> and \<^verbatim>\<open>status\<close> of each entry; the elapsed-time
    stamp and the display message are left out, as are the response fields that only
    read the clock (\<^verbatim>\<open>processing_time\<close>, \<^verbatim>\<open>timestamp\<close>) and the top-five importance table.
\<close>

subsection \<open>Values and exceptions\<close>

datatype json =
    JNull
  | JBool bool
  | JInt int
  | JFloat real
  | JStr string
  | JArr "json list"
  | JObj "(string \<times> json) list"

text \<open>
  The exceptions of the builtins the handlers use, \<open>HTTPException\<close> for what
  \<^verbatim>\<open>get_json\<close> may raise, and \<open>LibraryError\<close> for anything else the scaler or the
  classifier may raise. All of them are caught by \<^verbatim>\<open>except Exception\<close>.
\<close>

datatype py_exn =
    TypeError
  | ValueError
  | KeyError
  | IndexError
  | AttributeError
  | OverflowError
  | HTTPException
  | LibraryError

text \<open>
  Python's builtin \<^verbatim>\<open>float\<close> on a string is a parameter of the model: a function that
  gives the number a string denotes, or \<open>None\<close> where \<^verbatim>\<open>float\<close> raises ValueError.
\<close>

type_synonym str_parser = "string \<Rightarrow> real option"

text \<open>
  Sequencing of statements that may raise: the first exception ends the sequence.
\<close>

fun bind_exn :: "py_exn + 'a \<Rightarrow> ('a \<Rightarrow> py_exn + 'b) \<Rightarrow> py_exn + 'b" where
  "bind_exn (Inl e) f = Inl e"
| "bind_exn (Inr x) f = f x"

subsection \<open>Floating-point numbers\<close>

text \<open>
  A Python \<^verbatim>\<open>float\<close> and a numpy \<^verbatim>\<open>float64\<close> are IEEE binary64 numbers. A float is
  represented by the real number it denotes, and every arithmetic operation of the
  handlers is the exact operation followed by rounding to binary64. The special values
  (\<^verbatim>\<open>inf\<close>, \<^verbatim>\<open>nan\<close>) and overflow of a product to \<^verbatim>\<open>inf\<close> have no counterpart here.

  \<open>round_half_even\<close> is rounding to the nearest integer, ties to the even one
  (\<^verbatim>\<open>rint\<close>).
\<close>

definition round_half_even :: "real \<Rightarrow> int" where
  "round_half_even x =
     (let f = \<lfloor>x\<rfloor>; d = x - of_int f
      in if d < 1 / 2 then f else if 1 / 2 < d then f + 1 else if even f then f else f + 1)"

text \<open>
  Rounding a real number to the nearest binary64 number, ties to the even significand:
  with \<open>e\<close> the exponent of \<open>x\<close> (not below the least normal exponent \<open>-1022\<close>), the
  binary64 numbers around \<open>x\<close> are the multiples of \<open>2\<^sup>e\<^sup>-\<^sup>5\<^sup>2\<close>.
\<close>

definition binary64 :: "real \<Rightarrow> real" where
  "binary64 x =
     (if x = 0 then 0
      else let e = max \<lfloor>log 2 \<bar>x\<bar>\<rfloor> (- 1022); u = 2 powi (e - 52)
           in of_int (round_half_even (x / u)) * u)"

text \<open>The float product \<^verbatim>\<open>x * y\<close>.\<close>

definition fmul :: "real \<Rightarrow> real \<Rightarrow> real" where
  "fmul x y = binary64 (x * y)"

text \<open>
  \<^verbatim>\<open>round(x, n)\<close> for a numpy \<^verbatim>\<open>float64\<close> \<open>x\<close> and \<open>n > 0\<close>, which is numpy's
  \<^verbatim>\<open>around\<close>: the float product with \<open>10\<^sup>n\<close>, \<^verbatim>\<open>rint\<close>, and the float quotient by
  \<open>10\<^sup>n\<close>. Every number the handlers round is a numpy \<^verbatim>\<open>float64\<close>.
\<close>

definition np_round :: "real \<Rightarrow> nat \<Rightarrow> real" where
  "np_round x n = binary64 (of_int (round_half_even (binary64 (x * 10 ^ n))) / 10 ^ n)"

text \<open>The float literals \<^verbatim>\<open>0.7\<close> and \<^verbatim>\<open>0.4\<close>: the binary64 numbers nearest to 7/10 and 4/10.\<close>

definition float_0_7 :: real where
  "float_0_7 = 3152519739159347 / 4503599627370496"

definition float_0_4 :: real where
  "float_0_4 = 3602879701896397 / 9007199254740992"

subsection \<open>Operations on request values\<close>

text \<open>
  \<^verbatim>\<open>float(v)\<close> for a value that came out of the JSON parser. An integer is rounded to
  the nearest float; one that rounds beyond the largest float, that is, of magnitude
  \<open>2\<^sup>1\<^sup>0\<^sup>2\<^sup>4 - 2\<^sup>9\<^sup>7\<^sup>0\<close> or more, raises OverflowError.
\<close>

fun py_float :: "str_parser \<Rightarrow> json \<Rightarrow> py_exn + real" where
  "py_float P JNull = Inl TypeError"
| "py_float P (JBool b) = Inr (if b then 1 else 0)"
| "py_float P (JInt i) =
     (if \<bar>i\<bar> < 2 ^ 1024 - 2 ^ 970 then Inr (binary64 (of_int i)) else Inl OverflowError)"
| "py_float P (JFloat x) = Inr x"
| "py_float P (JStr s) = (case P s of None \<Rightarrow> Inl ValueError | Some x \<Rightarrow> Inr x)"
| "py_float P (JArr xs) = Inl TypeError"
| "py_float P (JObj d) = Inl TypeError"

text \<open>
  The number a raw value stands for in an ordering comparison with a number, if it has
  one: \<^verbatim>\<open>bool\<close> is a subtype of \<^verbatim>\<open>int\<close>; \<^verbatim>\<open>None\<close>, strings, lists and dicts are not
  comparable with a number.
\<close>

fun py_num :: "json \<Rightarrow> real option" where
  "py_num (JBool b) = Some (if b then 1 else 0)"
| "py_num (JInt i) = Some (of_int i)"
| "py_num (JFloat x) = Some x"
| "py_num JNull = None"
| "py_num (JStr s) = None"
| "py_num (JArr xs) = None"
| "py_num (JObj d) = None"

text \<open>\<^verbatim>\<open>v < c\<close> and \<^verbatim>\<open>v > c\<close> for a raw value and a numeric literal: TypeError unless numeric.\<close>

definition py_lt :: "json \<Rightarrow> real \<Rightarrow> py_exn + bool" where
  "py_lt v c = (case py_num v of None \<Rightarrow> Inl TypeError | Some x \<Rightarrow> Inr (x < c))"

definition py_gt :: "json \<Rightarrow> real \<Rightarrow> py_exn + bool" where
  "py_gt v c = (case py_num v of None \<Rightarrow> Inl TypeError | Some x \<Rightarrow> Inr (c < x))"

text \<open>\<^verbatim>\<open>v == 1\<close> never raises: a value that is not a number is simply not equal to 1.\<close>

definition py_eq_one :: "json \<Rightarrow> bool" where
  "py_eq_one v = (py_num v = Some 1)"

fun is_prefix :: "string \<Rightarrow> string \<Rightarrow> bool" where
  "is_prefix [] ys = True"
| "is_prefix (x # xs) [] = False"
| "is_prefix (x # xs) (y # ys) = (x = y \<and> is_prefix xs ys)"

fun is_substring :: "string \<Rightarrow> string \<Rightarrow> bool" where
  "is_substring xs [] = (xs = [])"
| "is_substring xs (y # ys) = (is_prefix xs (y # ys) \<or> is_substring xs ys)"

text \<open>
  \<^verbatim>\<open>name in data\<close>: key membership for a dict, substring test for a string, element
  test for a list; TypeError for \<^verbatim>\<open>None\<close>, booleans and numbers.
\<close>

fun py_contains :: "json \<Rightarrow> string \<Rightarrow> py_exn + bool" where
  "py_contains (JObj d) k = Inr (map_of d k \<noteq> None)"
| "py_contains (JStr s) k = Inr (is_substring k s)"
| "py_contains (JArr xs) k = Inr (JStr k \<in> set xs)"
| "py_contains JNull k = Inl TypeError"
| "py_contains (JBool b) k = Inl TypeError"
| "py_contains (JInt i) k = Inl TypeError"
| "py_contains (JFloat x) k = Inl TypeError"

text \<open>\<^verbatim>\<open>data[name]\<close> with a string subscript.\<close>

fun py_getitem :: "json \<Rightarrow> string \<Rightarrow> py_exn + json" where
  "py_getitem (JObj d) k = (case map_of d k of None \<Rightarrow> Inl KeyError | Some v \<Rightarrow> Inr v)"
| "py_getitem JNull k = Inl TypeError"
| "py_getitem (JBool b) k = Inl TypeError"
| "py_getitem (JInt i) k = Inl TypeError"
| "py_getitem (JFloat x) k = Inl TypeError"
| "py_getitem (JStr s) k = Inl TypeError"
| "py_getitem (JArr xs) k = Inl TypeError"

text \<open>\<^verbatim>\<open>data.get(name, default)\<close>: only a dict has the method.\<close>

definition dict_get :: "(string \<times> json) list \<Rightarrow> string \<Rightarrow> json \<Rightarrow> json" where
  "dict_get d k dflt = (case map_of d k of None \<Rightarrow> dflt | Some v \<Rightarrow> v)"

fun py_get :: "json \<Rightarrow> string \<Rightarrow> json \<Rightarrow> py_exn + json" where
  "py_get (JObj d) k dflt = Inr (dict_get d k dflt)"
| "py_get JNull k dflt = Inl AttributeError"
| "py_get (JBool b) k dflt = Inl AttributeError"
| "py_get (JInt i) k dflt = Inl AttributeError"
| "py_get (JFloat x) k dflt = Inl AttributeError"
| "py_get (JStr s) k dflt = Inl AttributeError"
| "py_get (JArr xs) k dflt = Inl AttributeError"

text \<open>\<^verbatim>\<open>xs[i]\<close> on an array, and \<^verbatim>\<open>max(xs)\<close>.\<close>

definition nth_err :: "real list \<Rightarrow> nat \<Rightarrow> py_exn + real" where
  "nth_err xs i = (if i < length xs then Inr (xs ! i) else Inl IndexError)"

fun py_max :: "real list \<Rightarrow> py_exn + real" where
  "py_max [] = Inl ValueError"
| "py_max (x # xs) = Inr (fold max xs x)"

subsection \<open>Process-wide state\<close>

record rf_classifier =
  predict_proba :: "real list \<Rightarrow> py_exn + real list"
  predict_class :: "real list \<Rightarrow> py_exn + int"
  feature_importances :: "real list"

record std_scaler =
  transform :: "real list \<Rightarrow> py_exn + real list"

record feature_meta =
  names :: "string list"
  descriptions :: "(string \<times> string) list"

text \<open>
  The three module globals; \<open>None\<close> is Python's \<^verbatim>\<open>None\<close>, the value each has until
  \<^verbatim>\<open>load_ml_model\<close> has unpickled it. A loaded artifact is a truthy object (a fitted
  estimator, a scaler, a dict that has the key \<^verbatim>\<open>names\<close>).
\<close>

record globals =
  model :: "rf_classifier option"
  scaler :: "std_scaler option"
  feature_info :: "feature_meta option"

subsection \<open>Responses\<close>

type_synonym log = "(string \<times> string) list"

datatype error_text = Text string | Text_exn string py_exn

record predict_result =
  pr_prediction :: int
  pr_prediction_text :: string
  pr_confidence :: real
  pr_non_toxic :: real
  pr_toxic :: real
  pr_risk_level :: string
  pr_risk_factors :: "string list"
  pr_status_log :: log

record feature_entry =
  fe_value :: real
  fe_description :: string
  fe_importance :: real
  fe_risk_level :: string
  fe_normalized_value :: real

record analysis =
  an_class :: int
  an_text :: string
  an_confidence :: real
  an_non_toxic :: real
  an_toxic :: real
  an_feature_analysis :: "(string \<times> feature_entry) list"
  an_overall_risk :: string
  an_risk_factors :: "string list"
  an_safety_recommendations :: "string list"
  an_chart_importance :: "(string \<times> real) list"
  an_risk_distribution :: "(string \<times> nat) list"

record health =
  h_status :: string
  h_model_loaded :: bool
  h_scaler_loaded :: bool
  h_features_loaded :: bool

datatype body =
    Error_body error_text "log option"
  | Predict_body predict_result
  | Analysis_body analysis
  | Health_body health

record response =
  code :: nat
  body :: body

datatype call =
    Scaler_transform "real list"
  | Predict_proba "real list"
  | Predict "real list"

subsection \<open>Feature extraction (both handlers)\<close>

datatype extraction = Extracted "real list" | Missing string | Raised py_exn

text \<open>
  \<^verbatim>\<open>
  for feature_name in feature_names:
      if feature_name in data:
          value = float(data[feature_name])
          features.append(value)
      else:
          return jsonify({'error': f'Missing feature: {feature_name}', ...}), 400
  \<close>
\<close>

fun extract_features :: "str_parser \<Rightarrow> json \<Rightarrow> string list \<Rightarrow> real list \<Rightarrow> extraction" where
  "extract_features P data [] features = Extracted features"
| "extract_features P data (feature_name # rest) features =
     (case py_contains data feature_name of
        Inl e \<Rightarrow> Raised e
      | Inr False \<Rightarrow> Missing feature_name
      | Inr True \<Rightarrow>
          (case py_getitem data feature_name of
             Inl e \<Rightarrow> Raised e
           | Inr v \<Rightarrow>
               (case py_float P v of
                  Inl e \<Rightarrow> Raised e
                | Inr x \<Rightarrow> extract_features P data rest (features @ [x]))))"

subsection \<open>The prediction handler\<close>

text \<open>
  The risk bucket of \<^verbatim>\<open>predict\<close>, on \<^verbatim>\<open>toxic_prob\<close>, the float product of the toxic-class
  probability with 100.
\<close>

definition risk_level_of :: "real \<Rightarrow> string" where
  "risk_level_of toxic_prob =
     (if toxic_prob > 70 then ''High'' else if toxic_prob > 40 then ''Medium'' else ''Low'')"

text \<open>
  The list that the five \<^verbatim>\<open>if ...: risk_factors.append(...)\<close> statements build, given
  the outcome of each test, in source order.
\<close>

definition risk_messages :: "bool \<Rightarrow> bool \<Rightarrow> bool \<Rightarrow> bool \<Rightarrow> bool \<Rightarrow> string list" where
  "risk_messages c1 c2 c3 c4 c5 =
     (if c1 then [''Small particle size increases bioavailability''] else [])
   @ (if c2 then [''High surface area enhances reactivity''] else [])
   @ (if c3 then [''High concentration increases exposure risk''] else [])
   @ (if c4 then [''Metal nanoparticles can have higher toxicity''] else [])
   @ (if c5 then [''High aspect ratio (fiber-like) may cause inflammation''] else [])"

text \<open>
  The five tests read the raw request values with \<^verbatim>\<open>data.get\<close>; a test whose value is
  not a number raises TypeError, and \<^verbatim>\<open>data.get\<close> raises AttributeError unless \<^verbatim>\<open>data\<close> is
  a dict.
\<close>

definition risk_factors :: "json \<Rightarrow> py_exn + string list" where
  "risk_factors data =
     bind_exn (py_get data ''particle_size_nm'' (JInt 0)) (\<lambda>v1.
     bind_exn (py_lt v1 50) (\<lambda>c1.
     bind_exn (py_get data ''surface_area_m2g'' (JInt 0)) (\<lambda>v2.
     bind_exn (py_gt v2 100) (\<lambda>c2.
     bind_exn (py_get data ''concentration_mgl'' (JInt 0)) (\<lambda>v3.
     bind_exn (py_gt v3 100) (\<lambda>c3.
     bind_exn (py_get data ''material_type'' (JInt 0)) (\<lambda>v4.
     bind_exn (py_get data ''aspect_ratio'' (JInt 1)) (\<lambda>v5.
     bind_exn (py_gt v5 10) (\<lambda>c5.
     Inr (risk_messages c1 c2 c3 (py_eq_one v4) c5))))))))))"

definition log1 :: log where
  "log1 = [(''validation'', ''processing'')]"

definition log3 :: log where
  "log3 = log1 @ [(''validation'', ''completed''), (''preprocessing'', ''processing'')]"

definition log5 :: log where
  "log5 = log3 @ [(''preprocessing'', ''completed''), (''prediction'', ''processing'')]"

definition log7 :: log where
  "log7 = log5 @ [(''prediction'', ''completed''), (''interpretation'', ''processing'')]"

definition log8 :: log where
  "log8 = log7 @ [(''interpretation'', ''completed'')]"

text \<open>Step 4 of \<^verbatim>\<open>predict\<close>: everything between the model calls and \<^verbatim>\<open>jsonify(result)\<close>.\<close>

definition interpret_result :: "json \<Rightarrow> real list \<Rightarrow> int \<Rightarrow> py_exn + predict_result" where
  "interpret_result data prediction_prob prediction_class =
     bind_exn (py_max prediction_prob) (\<lambda>mx.
     bind_exn (nth_err prediction_prob 0) (\<lambda>p0.
     bind_exn (nth_err prediction_prob 1) (\<lambda>p1.
     bind_exn (risk_factors data) (\<lambda>rf.
     Inr \<lparr> pr_prediction = prediction_class,
           pr_prediction_text = (if prediction_class = 1 then ''Toxic'' else ''Non-Toxic''),
           pr_confidence = np_round (fmul mx 100) 2,
           pr_non_toxic = np_round (fmul p0 100) 2,
           pr_toxic = np_round (fmul p1 100) 2,
           pr_risk_level = risk_level_of (fmul p1 100),
           pr_risk_factors = rf,
           pr_status_log = log8 \<rparr>))))"

definition prediction_failed :: "py_exn \<Rightarrow> log \<Rightarrow> response" where
  "prediction_failed e lg =
     \<lparr> code = 500, body = Error_body (Text_exn ''Prediction failed: '' e) (Some lg) \<rparr>"

definition not_loaded :: response where
  "not_loaded = \<lparr> code = 500, body = Error_body (Text ''Model not loaded properly'') None \<rparr>"

text \<open>The \<^verbatim>\<open>try\<close> block of \<^verbatim>\<open>predict\<close> with its \<^verbatim>\<open>except\<close> clause.\<close>

definition predict_try ::
  "str_parser \<Rightarrow> rf_classifier \<Rightarrow> std_scaler \<Rightarrow> feature_meta \<Rightarrow> py_exn + json
     \<Rightarrow> response \<times> call list" where
  "predict_try P m s fi req =
     (case req of
        Inl e \<Rightarrow> (prediction_failed e [], [])
      | Inr data \<Rightarrow>
         (case extract_features P data (names fi) [] of
            Raised e \<Rightarrow> (prediction_failed e log1, [])
          | Missing n \<Rightarrow>
              (\<lparr> code = 400,
                  body = Error_body (Text (''Missing feature: '' @ n)) (Some log1) \<rparr>, [])
          | Extracted features \<Rightarrow>
             (case transform s features of
                Inl e \<Rightarrow> (prediction_failed e log3, [Scaler_transform features])
              | Inr features_scaled \<Rightarrow>
                 (case predict_proba m features_scaled of
                    Inl e \<Rightarrow>
                      (prediction_failed e log5,
                       [Scaler_transform features, Predict_proba features_scaled])
                  | Inr prediction_prob \<Rightarrow>
                     (case predict_class m features_scaled of
                        Inl e \<Rightarrow>
                          (prediction_failed e log5,
                           [Scaler_transform features, Predict_proba features_scaled,
                            Predict features_scaled])
                      | Inr prediction_class \<Rightarrow>
                         (case interpret_result data prediction_prob prediction_class of
                            Inl e \<Rightarrow>
                              (prediction_failed e log7,
                               [Scaler_transform features, Predict_proba features_scaled,
                                Predict features_scaled])
                          | Inr result \<Rightarrow>
                              (\<lparr> code = 200, body = Predict_body result \<rparr>,
                               [Scaler_transform features, Predict_proba features_scaled,
                                Predict features_scaled])))))))"

text \<open>
  \<^verbatim>\<open>
  if not model or not scaler or not feature_info:
      return jsonify({'error': 'Model not loaded properly'}), 500
  \<close>
\<close>

definition predict :: "str_parser \<Rightarrow> globals \<Rightarrow> py_exn + json \<Rightarrow> response \<times> call list" where
  "predict P g req =
     (case model g of
        None \<Rightarrow> (not_loaded, [])
      | Some m \<Rightarrow>
         (case scaler g of
            None \<Rightarrow> (not_loaded, [])
          | Some s \<Rightarrow>
             (case feature_info g of
                None \<Rightarrow> (not_loaded, [])
              | Some fi \<Rightarrow> predict_try P m s fi req)))"

subsection \<open>The detailed-analysis handler\<close>

text \<open>The per-feature tier: one \<^verbatim>\<open>if\<close>/\<^verbatim>\<open>elif\<close> chain on the feature's name and coerced value.\<close>

definition feature_risk :: "string \<Rightarrow> real \<Rightarrow> string" where
  "feature_risk name v =
     (if name = ''particle_size_nm'' \<and> v < 50 then ''High''
      else if name = ''surface_area_m2g'' \<and> v > 200 then ''Medium''
      else if name = ''concentration_mgl'' \<and> v > 500 then ''High''
      else if name = ''zeta_potential_mv'' \<and> \<bar>v\<bar> < 15 then ''Medium''
      else ''Low'')"

text \<open>The overall bucket of \<^verbatim>\<open>detailed_analysis\<close>, on the toxic-class probability.\<close>

definition overall_risk_of :: "real \<Rightarrow> string" where
  "overall_risk_of p1 =
     (if p1 > float_0_7 then ''High'' else if p1 > float_0_4 then ''Medium'' else ''Low'')"

text \<open>\<^verbatim>\<open>d[k] = v\<close> on a dict: an existing key keeps its place, a new key goes last.\<close>

fun dict_set :: "('k \<times> 'v) list \<Rightarrow> 'k \<Rightarrow> 'v \<Rightarrow> ('k \<times> 'v) list" where
  "dict_set [] k v = [(k, v)]"
| "dict_set ((k', v') # d) k v = (if k' = k then (k, v) # d else (k', v') # dict_set d k v)"

text \<open>\<^verbatim>\<open>feature_info['descriptions'][name]\<close>\<close>

definition description_of :: "feature_meta \<Rightarrow> string \<Rightarrow> py_exn + string" where
  "description_of fi name =
     (case map_of (descriptions fi) name of None \<Rightarrow> Inl KeyError | Some d \<Rightarrow> Inr d)"

text \<open>
  The loop \<^verbatim>\<open>for i, (name, value) in enumerate(zip(feature_names, features))\<close>, which
  fills \<^verbatim>\<open>analysis['feature_analysis']\<close>.
\<close>

fun analyse_features ::
  "feature_meta \<Rightarrow> rf_classifier \<Rightarrow> real list \<Rightarrow> (nat \<times> string \<times> real) list
     \<Rightarrow> (string \<times> feature_entry) list \<Rightarrow> py_exn + (string \<times> feature_entry) list" where
  "analyse_features fi m features_scaled [] acc = Inr acc"
| "analyse_features fi m features_scaled ((i, name, v) # rest) acc =
     bind_exn (description_of fi name) (\<lambda>desc.
     bind_exn (nth_err (feature_importances m) i) (\<lambda>importance.
     bind_exn (nth_err features_scaled i) (\<lambda>scaled_i.
     analyse_features fi m features_scaled rest
       (dict_set acc name
          \<lparr> fe_value = v,
            fe_description = desc,
            fe_importance = np_round importance 4,
            fe_risk_level = feature_risk name v,
            fe_normalized_value = np_round scaled_i 3 \<rparr>))))"

definition recommendations :: "json \<Rightarrow> py_exn + string list" where
  "recommendations data =
     bind_exn (py_get data ''particle_size_nm'' (JInt 0)) (\<lambda>v1.
     bind_exn (py_lt v1 50) (\<lambda>c1.
     bind_exn (py_get data ''concentration_mgl'' (JInt 0)) (\<lambda>v2.
     bind_exn (py_gt v2 500) (\<lambda>c2.
     bind_exn (py_get data ''surface_area_m2g'' (JInt 0)) (\<lambda>v3.
     bind_exn (py_gt v3 200) (\<lambda>c3.
     Inr ((if c1 then [''Consider larger particle sizes to reduce bioavailability''] else [])
        @ (if c2 then [''Reduce concentration to minimize exposure risk''] else [])
        @ (if c3 then [''Monitor surface reactivity due to high surface area''] else []))))))))"

definition count_level :: "(string \<times> feature_entry) list \<Rightarrow> string \<Rightarrow> nat" where
  "count_level fa lvl = length (filter (\<lambda>(k, f). fe_risk_level f = lvl) fa)"

text \<open>The body of the \<^verbatim>\<open>try\<close> block after the two model calls.\<close>

definition build_analysis ::
  "feature_meta \<Rightarrow> rf_classifier \<Rightarrow> json \<Rightarrow> real list \<Rightarrow> real list \<Rightarrow> real list \<Rightarrow> int
     \<Rightarrow> py_exn + analysis" where
  "build_analysis fi m data features features_scaled prediction_prob prediction_class =
     bind_exn (py_max prediction_prob) (\<lambda>mx.
     bind_exn (nth_err prediction_prob 0) (\<lambda>p0.
     bind_exn (nth_err prediction_prob 1) (\<lambda>p1.
     bind_exn (analyse_features fi m features_scaled
                 (enumerate 0 (zip (names fi) features)) []) (\<lambda>fa.
     bind_exn (recommendations data) (\<lambda>recs.
     Inr \<lparr> an_class = prediction_class,
           an_text = (if prediction_class = 1 then ''Toxic'' else ''Non-Toxic''),
           an_confidence = np_round (fmul mx 100) 2,
           an_non_toxic = np_round (fmul p0 100) 2,
           an_toxic = np_round (fmul p1 100) 2,
           an_feature_analysis = fa,
           an_overall_risk = overall_risk_of p1,
           an_risk_factors = [],
           an_safety_recommendations = recs,
           an_chart_importance =
             map (\<lambda>(name, imp). (name, np_round (fmul imp 100) 2))
               (zip (names fi) (feature_importances m)),
           an_risk_distribution =
             [(''Low Risk Features'', count_level fa ''Low''),
              (''Medium Risk Features'', count_level fa ''Medium''),
              (''High Risk Features'', count_level fa ''High'')] \<rparr>)))))"

definition analysis_failed :: "py_exn \<Rightarrow> response" where
  "analysis_failed e = \<lparr> code = 500, body = Error_body (Text_exn ''Analysis failed: '' e) None \<rparr>"

definition detailed_analysis_try ::
  "str_parser \<Rightarrow> rf_classifier \<Rightarrow> std_scaler \<Rightarrow> feature_meta \<Rightarrow> py_exn + json
     \<Rightarrow> response \<times> call list" where
  "detailed_analysis_try P m s fi req =
     (case req of
        Inl e \<Rightarrow> (analysis_failed e, [])
      | Inr data \<Rightarrow>
         (case extract_features P data (names fi) [] of
            Raised e \<Rightarrow> (analysis_failed e, [])
          | Missing n \<Rightarrow>
              (\<lparr> code = 400, body = Error_body (Text (''Missing feature: '' @ n)) None \<rparr>, [])
          | Extracted features \<Rightarrow>
             (case transform s features of
                Inl e \<Rightarrow> (analysis_failed e, [Scaler_transform features])
              | Inr features_scaled \<Rightarrow>
                 (case predict_proba m features_scaled of
                    Inl e \<Rightarrow>
                      (analysis_failed e,
                       [Scaler_transform features, Predict_proba features_scaled])
                  | Inr prediction_prob \<Rightarrow>
                     (case predict_class m features_scaled of
                        Inl e \<Rightarrow>
                          (analysis_failed e,
                           [Scaler_transform features, Predict_proba features_scaled,
                            Predict features_scaled])
                      | Inr prediction_class \<Rightarrow>
                         (case build_analysis fi m data features features_scaled
                                 prediction_prob prediction_class of
                            Inl e \<Rightarrow>
                              (analysis_failed e,
                               [Scaler_transform features, Predict_proba features_scaled,
                                Predict features_scaled])
                          | Inr a \<Rightarrow>
                              (\<lparr> code = 200, body = Analysis_body a \<rparr>,
                               [Scaler_transform features, Predict_proba features_scaled,
                                Predict features_scaled])))))))"

definition detailed_analysis ::
  "str_parser \<Rightarrow> globals \<Rightarrow> py_exn + json \<Rightarrow> response \<times> call list" where
  "detailed_analysis P g req =
     (case model g of
        None \<Rightarrow> (not_loaded, [])
      | Some m \<Rightarrow>
         (case scaler g of
            None \<Rightarrow> (not_loaded, [])
          | Some s \<Rightarrow>
             (case feature_info g of
                None \<Rightarrow> (not_loaded, [])
              | Some fi \<Rightarrow> detailed_analysis_try P m s fi req)))"

subsection \<open>The health endpoint\<close>

definition health_check :: "globals \<Rightarrow> response" where
  "health_check g =
     \<lparr> code = 200,
       body = Health_body
         \<lparr> h_status = ''healthy'',
           h_model_loaded = (model g \<noteq> None),
           h_scaler_loaded = (scaler g \<noteq> None),
           h_features_loaded = (feature_info g \<noteq> None) \<rparr> \<rparr>"

subsection \<open>Sample artifacts and requests\<close>

text \<open>
  Concrete objects on which the handlers are evaluated in the examples below. The
  feature list of \<^verbatim>\<open>generate_synthetic_nanotox_dataset\<close> (\<^verbatim>\<open>model_trainer.py\<close>), the
  request that \<^verbatim>\<open>verify_deployment.py\<close> posts to \<^verbatim>\<open>/predict\<close> and the names it uses are
  taken from the sources; the classifier, the scaler and the string reader are small
  stand-ins for the pickled objects and for \<^verbatim>\<open>float\<close>. The stand-in scaler maps \<open>x\<close>
  to \<open>(x - 50) / 10\<close>, computed exactly.
\<close>

definition trainer_features :: "string list" where
  "trainer_features =
     [''particle_size_nm'', ''surface_area_m2g'', ''zeta_potential_mv'', ''ph'',
      ''concentration_mgl'', ''material_type'', ''crystallinity'', ''porosity'',
      ''hydrophobicity'', ''aspect_ratio'']"

definition test_data :: "(string \<times> json) list" where
  "test_data =
     [(''particle_size_nm'', JInt 25),
      (''surface_area_m2g'', JInt 150),
      (''concentration_mgl'', JInt 100),
      (''ph'', JFloat (74 / 10)),
      (''temperature_c'', JInt 25),
      (''zeta_potential_mv'', JInt (- 30)),
      (''material_type'', JInt 1),
      (''exposure_time_h'', JInt 24),
      (''aspect_ratio'', JFloat (15 / 10))]"

text \<open>The same request with the particle size sent as the string \<^verbatim>\<open>"25"\<close>.\<close>

definition test_data_str :: "(string \<times> json) list" where
  "test_data_str =
     [(''particle_size_nm'', JStr ''25''),
      (''surface_area_m2g'', JInt 150),
      (''concentration_mgl'', JInt 100),
      (''ph'', JFloat (74 / 10)),
      (''temperature_c'', JInt 25),
      (''zeta_potential_mv'', JInt (- 30)),
      (''material_type'', JInt 1),
      (''exposure_time_h'', JInt 24),
      (''aspect_ratio'', JFloat (15 / 10))]"

definition test_data_names :: "string list" where
  "test_data_names =
     [''particle_size_nm'', ''surface_area_m2g'', ''concentration_mgl'', ''ph'',
      ''temperature_c'', ''zeta_potential_mv'', ''material_type'', ''exposure_time_h'',
      ''aspect_ratio'']"

definition two_features :: "string list" where
  "two_features = [''particle_size_nm'', ''surface_area_m2g'']"

definition two_feature_data :: "(string \<times> json) list" where
  "two_feature_data = [(''particle_size_nm'', JInt 30), (''surface_area_m2g'', JInt 150)]"

text \<open>
  The particle size 30 sent as the string \<^verbatim>\<open>"30"\<close>, with a surface area of 150.
\<close>

definition string_particle_data :: "(string \<times> json) list" where
  "string_particle_data = [(''particle_size_nm'', JStr ''30''), (''surface_area_m2g'', JInt 150)]"

text \<open>
  A list of the five features that have a risk-factor check; a request in which every
  check but the one on the particle size holds; and the same request with the particle
  size tightened from 60 to 30, sent as a number and sent as the string \<^verbatim>\<open>"30"\<close>.
\<close>

definition checked_features :: "string list" where
  "checked_features =
     [''particle_size_nm'', ''surface_area_m2g'', ''concentration_mgl'', ''material_type'',
      ''aspect_ratio'']"

definition wide_particle_data :: "(string \<times> json) list" where
  "wide_particle_data =
     [(''particle_size_nm'', JInt 60),
      (''surface_area_m2g'', JInt 150),
      (''concentration_mgl'', JInt 200),
      (''material_type'', JInt 1),
      (''aspect_ratio'', JInt 12)]"

definition narrow_particle_data :: "(string \<times> json) list" where
  "narrow_particle_data =
     [(''particle_size_nm'', JInt 30),
      (''surface_area_m2g'', JInt 150),
      (''concentration_mgl'', JInt 200),
      (''material_type'', JInt 1),
      (''aspect_ratio'', JInt 12)]"

definition narrow_string_data :: "(string \<times> json) list" where
  "narrow_string_data =
     [(''particle_size_nm'', JStr ''30''),
      (''surface_area_m2g'', JInt 150),
      (''concentration_mgl'', JInt 200),
      (''material_type'', JInt 1),
      (''aspect_ratio'', JInt 12)]"

definition sample_float_of_str :: str_parser where
  "sample_float_of_str s =
     (if s = ''25'' then Some 25 else if s = ''30'' then Some 30 else None)"

definition sample_scaler :: std_scaler where
  "sample_scaler = \<lparr> transform = (\<lambda>xs. Inr (map (\<lambda>x. (x - 50) / 10) xs)) \<rparr>"

definition sample_toxic :: "real list \<Rightarrow> bool" where
  "sample_toxic xs = (case xs of [] \<Rightarrow> False | x # rest \<Rightarrow> x < 0)"

definition sample_model :: rf_classifier where
  "sample_model =
     \<lparr> predict_proba = (\<lambda>xs. Inr (if sample_toxic xs then [1 / 4, 3 / 4] else [3 / 4, 1 / 4])),
       predict_class = (\<lambda>xs. Inr (if sample_toxic xs then 1 else 0)),
       feature_importances =
         [1 / 2, 1 / 4, 1 / 8, 1 / 16, 1 / 32, 1 / 64, 1 / 128, 1 / 256, 1 / 512, 1 / 512] \<rparr>"

definition sample_globals :: "string list \<Rightarrow> globals" where
  "sample_globals ns =
     \<lparr> model = Some sample_model,
       scaler = Some sample_scaler,
       feature_info = Some \<lparr> names = ns, descriptions = map (\<lambda>n. (n, n)) ns \<rparr> \<rparr>"

text \<open>
  A classifier that returns the float next above \<^verbatim>\<open>0.7\<close>, which is
  \<^verbatim>\<open>0.7000000000000001\<close> or \<open>6305039478318695 / 2\<^sup>5\<^sup>3\<close>, as the toxic-class probability
  of every vector, and \<^verbatim>\<open>1 - 0.7000000000000001\<close> for the other class.
\<close>

definition boundary_model :: rf_classifier where
  "boundary_model =
     \<lparr> predict_proba =
         (\<lambda>xs. Inr [2702159776422297 / 9007199254740992, 6305039478318695 / 9007199254740992]),
       predict_class = (\<lambda>xs. Inr 1),
       feature_importances = [1 / 2, 1 / 2] \<rparr>"

definition boundary_globals :: globals where
  "boundary_globals =
     \<lparr> model = Some boundary_model,
       scaler = Some sample_scaler,
       feature_info =
         Some \<lparr> names = two_features, descriptions = map (\<lambda>n. (n, n)) two_features \<rparr> \<rparr>"

section \<open>Auxiliary facts\<close>

subsection \<open>Outcomes of the two handlers\<close>

lemma bind_exn_Inr_iff: "bind_exn a f = Inr y \<longleftrightarrow> (\<exists>x. a = Inr x \<and> f x = Inr y)"
  by (cases a) auto

lemma predict_try_200:
  assumes "predict_try P m s fi req = (r, cs)" and "code r = 200"
  shows "\<exists>data features scaled prob cls res.
           req = Inr data
         \<and> extract_features P data (names fi) [] = Extracted features
         \<and> transform s features = Inr scaled
         \<and> predict_proba m scaled = Inr prob
         \<and> predict_class m scaled = Inr cls
         \<and> interpret_result data prob cls = Inr res
         \<and> r = \<lparr> code = 200, body = Predict_body res \<rparr>
         \<and> cs = [Scaler_transform features, Predict_proba scaled, Predict scaled]"
  using assms unfolding predict_try_def prediction_failed_def
  by (auto split: sum.splits extraction.splits)

lemma predict_200:
  assumes "predict P g req = (r, cs)" and "code r = 200"
  shows "\<exists>m s fi. model g = Some m \<and> scaler g = Some s \<and> feature_info g = Some fi
           \<and> predict_try P m s fi req = (r, cs)"
  using assms unfolding predict_def not_loaded_def
  by (auto split: option.splits)

lemma detailed_analysis_try_200:
  assumes "detailed_analysis_try P m s fi req = (r, cs)" and "code r = 200"
  shows "\<exists>data features scaled prob cls a.
           req = Inr data
         \<and> extract_features P data (names fi) [] = Extracted features
         \<and> transform s features = Inr scaled
         \<and> predict_proba m scaled = Inr prob
         \<and> predict_class m scaled = Inr cls
         \<and> build_analysis fi m data features scaled prob cls = Inr a
         \<and> r = \<lparr> code = 200, body = Analysis_body a \<rparr>
         \<and> cs = [Scaler_transform features, Predict_proba scaled, Predict scaled]"
  using assms unfolding detailed_analysis_try_def analysis_failed_def
  by (auto split: sum.splits extraction.splits)

lemma detailed_analysis_200:
  assumes "detailed_analysis P g req = (r, cs)" and "code r = 200"
  shows "\<exists>m s fi. model g = Some m \<and> scaler g = Some s \<and> feature_info g = Some fi
           \<and> detailed_analysis_try P m s fi req = (r, cs)"
  using assms unfolding detailed_analysis_def not_loaded_def
  by (auto split: option.splits)

subsection \<open>Rounding to binary64\<close>

lemma round_half_even_of_int: "round_half_even (of_int n) = n"
  by (simp add: round_half_even_def)



lemma two_powi_less_cancel:
  assumes "(2::real) powi a \<le> x" "x < 2 powi b"
  shows "a < b"
proof (rule ccontr)
  assume "\<not> a < b"
  then have "(2::real) powi b \<le> 2 powi a"
    by (intro power_int_increasing) auto
  with assms show False by simp
qed

lemma floor_log2_less:
  assumes "x \<noteq> 0" "\<bar>x\<bar> < 2 powi K"
  shows "\<lfloor>log 2 \<bar>x\<bar>\<rfloor> < K"
proof -
  have pos: "0 < \<bar>x\<bar>" using assms by simp
  have "2 powr real_of_int \<lfloor>log 2 \<bar>x\<bar>\<rfloor> \<le> \<bar>x\<bar>"
    using floor_log_eq_powr_iff [OF pos, of 2 "\<lfloor>log 2 \<bar>x\<bar>\<rfloor>"] by simp
  then have "2 powi \<lfloor>log 2 \<bar>x\<bar>\<rfloor> \<le> \<bar>x\<bar>"
    by (simp add: powr_real_of_int')
  then show ?thesis using assms(2) by (rule two_powi_less_cancel)
qed

lemma two_powi_nat: "0 \<le> j \<Longrightarrow> (2::real) powi j = of_int (2 ^ nat j)"
  by (simp add: power_int_def)

lemma binary64_exact:
  assumes x: "x = of_int m * 2 powi k" and m: "\<bar>m\<bar> < 2 ^ 53" and k: "- 1074 \<le> k"
  shows "binary64 x = x"
proof (cases "x = 0")
  case True
  then show ?thesis by (simp add: binary64_def)
next
  case False
  define e where "e = max \<lfloor>log 2 \<bar>x\<bar>\<rfloor> (- 1022)"
  have "\<bar>x\<bar> = of_int \<bar>m\<bar> * 2 powi k"
    by (simp add: x abs_mult)
  also have "\<dots> < 2 ^ 53 * 2 powi k"
    using m by (intro mult_strict_right_mono) (auto simp: zero_less_power_int)
  also have "\<dots> = 2 powi (53 + k)"
    by (simp add: power_int_add)
  finally have "\<lfloor>log 2 \<bar>x\<bar>\<rfloor> < 53 + k"
    using False by (intro floor_log2_less) auto
  with k have j: "0 \<le> k - e + 52" by (simp add: e_def)
  have "x / 2 powi (e - 52) = of_int m * 2 powi (k - (e - 52))"
    by (simp add: x power_int_diff)
  also have "k - (e - 52) = k - e + 52" by simp
  also have "of_int m * (2::real) powi (k - e + 52) = of_int (m * 2 ^ nat (k - e + 52))"
    using j by (simp add: two_powi_nat)
  finally have "round_half_even (x / 2 powi (e - 52)) = m * 2 ^ nat (k - e + 52)"
    by (simp only: round_half_even_of_int)
  then have "binary64 x = of_int (m * 2 ^ nat (k - e + 52)) * 2 powi (e - 52)"
    using False by (simp add: binary64_def Let_def e_def)
  also have "\<dots> = of_int m * ((2::real) powi (k - e + 52) * 2 powi (e - 52))"
    using j by (simp add: two_powi_nat)
  also have "2 powi (k - e + 52) * 2 powi (e - 52) = (2::real) powi k"
    by (simp flip: power_int_add)
  finally show ?thesis by (simp add: x)
qed

lemma binary64_of_int: "\<bar>i\<bar> < 2 ^ 53 \<Longrightarrow> binary64 (of_int i) = of_int i"
  using binary64_exact [of "of_int i" i 0] by simp



lemma binary64_numeral:
  "numeral w < (2::int) ^ 53 \<Longrightarrow> binary64 (numeral w) = numeral w"
  "numeral w < (2::int) ^ 53 \<Longrightarrow> binary64 (- numeral w) = - numeral w"
  "binary64 1 = 1"
  using binary64_of_int [of "numeral w"] binary64_of_int [of "- numeral w"] binary64_of_int [of 1]
  by simp_all



lemma np_round_of_int:
  assumes "\<bar>i\<bar> * 10 ^ n < 2 ^ 53"
  shows "np_round (of_int i) n = of_int i"
proof -
  have "\<bar>i * 10 ^ n\<bar> < 2 ^ 53" using assms by (simp add: abs_mult)
  then have "binary64 (of_int i * 10 ^ n) = of_int (i * 10 ^ n)"
    using binary64_of_int [of "i * 10 ^ n"] by simp
  then have "np_round (of_int i) n = binary64 (of_int (i * 10 ^ n) / 10 ^ n)"
    by (simp add: np_round_def round_half_even_of_int del: of_int_mult of_int_power)
  also have "of_int (i * 10 ^ n) / (10 ^ n :: real) = of_int i" by simp
  also have "binary64 (of_int i) = of_int i"
  proof (rule binary64_of_int)
    have "\<bar>i\<bar> * 1 \<le> \<bar>i\<bar> * 10 ^ n" by (intro mult_left_mono) auto
    with assms show "\<bar>i\<bar> < 2 ^ 53" by simp
  qed
  finally show ?thesis .
qed

lemma np_round_numeral:
  "numeral w * 10 ^ n < (2::int) ^ 53 \<Longrightarrow> np_round (numeral w) n = numeral w"
  "numeral w * 10 ^ n < (2::int) ^ 53 \<Longrightarrow> np_round (- numeral w) n = - numeral w"
  using np_round_of_int [of "numeral w" n] np_round_of_int [of "- numeral w" n]
  by simp_all



lemma round_half_even_numeral: "round_half_even (numeral w) = numeral w"
  using round_half_even_of_int [of "numeral w"] by simp

lemma binary64_binade:
  assumes lo: "2 powi e \<le> \<bar>x\<bar>" and hi: "\<bar>x\<bar> < 2 powi (e + 1)" and e: "- 1022 \<le> e"
  shows "binary64 x = of_int (round_half_even (x / 2 powi (e - 52))) * 2 powi (e - 52)"
proof -
  have pos: "0 < \<bar>x\<bar>"
    using lo zero_less_power_int [of "2::real" e] by linarith
  have a: "2 powr real_of_int e = (2::real) powi e"
    and b: "2 powr real_of_int (e + 1) = (2::real) powi (e + 1)"
    by (rule powr_real_of_int'; simp)+
  have iff: "(\<lfloor>log 2 \<bar>x\<bar>\<rfloor> = e) =
      (2 powr real_of_int e \<le> \<bar>x\<bar> \<and> \<bar>x\<bar> < 2 powr real_of_int (e + 1))"
    by (rule floor_log_eq_powr_iff [OF pos]) simp
  have "\<lfloor>log 2 \<bar>x\<bar>\<rfloor> = e"
    unfolding iff a b using lo hi by blast
  with pos e show ?thesis by (simp add: binary64_def Let_def)
qed

lemma binary64_fractions:
  "binary64 (1 / 2) = 1 / 2"
  "binary64 (1 / 4) = 1 / 4"
  using binary64_exact [of "1 / 2" 1 "- 1"] binary64_exact [of "1 / 4" 1 "- 2"]
  by (simp_all add: power_int_minus)

lemma np_round_fractions:
  "np_round (1 / 2) 4 = 1 / 2"
  "np_round (1 / 4) 4 = 1 / 4"
  by (simp_all add: np_round_def binary64_numeral round_half_even_numeral binary64_fractions)

text \<open>The two float literals are the roundings of 7/10 and 4/10.\<close>

lemma float_literals:
  "float_0_7 = binary64 (7 / 10)"
  "float_0_4 = binary64 (4 / 10)"
proof -
  have "round_half_even (7 / 10 / 2 powi (- 1 - 52)) = 6305039478318694"
    by (simp add: power_int_minus round_half_even_def Let_def)
  then show "float_0_7 = binary64 (7 / 10)"
    using binary64_binade [of "- 1" "7 / 10"]
    by (simp add: power_int_minus float_0_7_def)
  have "round_half_even (4 / 10 / 2 powi (- 2 - 52)) = 7205759403792794"
    by (simp add: power_int_minus round_half_even_def Let_def)
  then show "float_0_4 = binary64 (4 / 10)"
    using binary64_binade [of "- 2" "4 / 10"]
    by (simp add: power_int_minus float_0_4_def)
qed

text \<open>
  The float next above \<^verbatim>\<open>0.7\<close> is \<^verbatim>\<open>0.7000000000000001\<close>. Its float product with 100 is
  exactly 70, so the bucket on the percentage is \<^verbatim>\<open>Medium\<close> while the bucket on the
  probability is \<^verbatim>\<open>High\<close>. The float \<^verbatim>\<open>0.4\<close> has the product 40 and is \<^verbatim>\<open>Low\<close> in both.
\<close>

lemma buckets_at_float_boundaries:
  "fmul (6305039478318695 / 9007199254740992) 100 = 70"
  "risk_level_of (fmul (6305039478318695 / 9007199254740992) 100) = ''Medium''"
  "overall_risk_of (6305039478318695 / 9007199254740992) = ''High''"
  "fmul float_0_4 100 = 40"
  "risk_level_of (fmul float_0_4 100) = ''Low''"
  "overall_risk_of float_0_4 = ''Low''"
proof -
  have "round_half_even (6305039478318695 / 9007199254740992 * 100 / 2 powi (6 - 52)) =
          4925812092436480"
    by (simp add: power_int_minus round_half_even_def Let_def)
  then show a: "fmul (6305039478318695 / 9007199254740992) 100 = 70"
    using binary64_binade [of 6 "6305039478318695 / 9007199254740992 * 100"]
    by (simp add: power_int_minus fmul_def)
  show "risk_level_of (fmul (6305039478318695 / 9007199254740992) 100) = ''Medium''"
    by (simp add: a risk_level_of_def)
  show "overall_risk_of (6305039478318695 / 9007199254740992) = ''High''"
    by (simp add: overall_risk_of_def float_0_7_def)
  have "round_half_even (3602879701896397 / 9007199254740992 * 100 / 2 powi (5 - 52)) =
          5629499534213120"
    by (simp add: power_int_minus round_half_even_def Let_def)
  then show b: "fmul float_0_4 100 = 40"
    using binary64_binade [of 5 "3602879701896397 / 9007199254740992 * 100"]
    by (simp add: power_int_minus fmul_def float_0_4_def)
  show "risk_level_of (fmul float_0_4 100) = ''Low''"
    by (simp add: b risk_level_of_def)
  show "overall_risk_of float_0_4 = ''Low''"
    by (simp add: overall_risk_of_def float_0_4_def float_0_7_def)
qed

text \<open>
  The float \<^verbatim>\<open>0.17065\<close> lies below the decimal it is written as, but its float product
  with 100 is the float \<^verbatim>\<open>17.065\<close>, which lies above, and \<^verbatim>\<open>round\<close> to two places gives
  the float \<^verbatim>\<open>17.07\<close>.
\<close>

lemma percentage_rounding_example:
  "fmul (6148314211286201 / 36028797018963968) 100 = 4803370477567345 / 281474976710656"
  "np_round (4803370477567345 / 281474976710656) 2 = 2402388926225449 / 140737488355328"
proof -
  have "round_half_even (6148314211286201 / 36028797018963968 * 100 / 2 powi (4 - 52)) =
          4803370477567345"
    by (simp add: power_int_minus round_half_even_def Let_def)
  then show "fmul (6148314211286201 / 36028797018963968) 100 =
      4803370477567345 / 281474976710656"
    using binary64_binade [of 4 "6148314211286201 / 36028797018963968 * 100"]
    by (simp add: power_int_minus fmul_def)
  have "round_half_even (4803370477567345 / 281474976710656 * 10 ^ 2 / 2 powi (10 - 52)) =
          7505266371198977"
    by (simp add: power_int_minus round_half_even_def Let_def)
  then have a: "binary64 (4803370477567345 / 281474976710656 * 10 ^ 2) =
      7505266371198977 / 4398046511104"
    using binary64_binade [of 10 "4803370477567345 / 281474976710656 * 10 ^ 2"]
    by (simp add: power_int_minus)
  have b: "round_half_even (7505266371198977 / 4398046511104) = 1707"
    by (simp add: round_half_even_def Let_def)
  have "round_half_even (1707 / 10 ^ 2 / 2 powi (4 - 52)) = 4804777852450898"
    by (simp add: power_int_minus round_half_even_def Let_def)
  then have c: "binary64 (1707 / 10 ^ 2) = 2402388926225449 / 140737488355328"
    using binary64_binade [of 4 "1707 / 10 ^ 2"]
    by (simp add: power_int_minus)
  show "np_round (4803370477567345 / 281474976710656) 2 = 2402388926225449 / 140737488355328"
    unfolding np_round_def a b using c by simp
qed

subsection \<open>Feature extraction\<close>

lemma py_float_small_int: "\<bar>i\<bar> < 2 ^ 53 \<Longrightarrow> py_float P (JInt i) = Inr (of_int i)"
  by (simp add: binary64_of_int)

lemma py_float_numeric:
  "\<bar>i\<bar> < 2 ^ 53 \<Longrightarrow> \<exists>x. py_float P (JInt i) = Inr x"
  "\<exists>x. py_float P (JFloat y) = Inr x"
  "\<exists>x. py_float P (JBool b) = Inr x"
  by simp_all

text \<open>
  An integer above \<open>2\<^sup>5\<^sup>3\<close> is rounded by \<^verbatim>\<open>float\<close>, ties to the even significand, and
  \<open>2\<^sup>1\<^sup>0\<^sup>2\<^sup>4 - 2\<^sup>9\<^sup>7\<^sup>0\<close> is the least integer that raises OverflowError.
\<close>

lemma py_float_large_int:
  "py_float P (JInt 9007199254740993) = Inr 9007199254740992"
  "py_float P (JInt (2 ^ 1024 - 2 ^ 970)) = Inl OverflowError"
proof -
  have "round_half_even (9007199254740993 / 2 powi (53 - 52)) = 4503599627370496"
    by (simp add: round_half_even_def Let_def)
  then have "binary64 9007199254740993 = 9007199254740992"
    using binary64_binade [of 53 9007199254740993] by simp
  then show "py_float P (JInt 9007199254740993) = Inr 9007199254740992"
    by simp
  show "py_float P (JInt (2 ^ 1024 - 2 ^ 970)) = Inl OverflowError"
    by simp
qed

lemma extract_features_missing:
  assumes "\<forall>k \<in> set pre. \<exists>v x. map_of d k = Some v \<and> py_float P v = Inr x"
    and "map_of d n = None"
  shows "extract_features P (JObj d) (pre @ n # post) acc = Missing n"
  using assms
proof (induction pre arbitrary: acc)
  case Nil
  then show ?case by simp
next
  case (Cons k pre)
  then obtain v x where "map_of d k = Some v" "py_float P v = Inr x" by auto
  with Cons show ?case by simp
qed

lemma predict_missing:
  assumes "model g = Some m" "scaler g = Some s" "feature_info g = Some fi"
    and "extract_features P data (names fi) [] = Missing n"
  shows "predict P g (Inr data) =
           (\<lparr> code = 400,
               body = Error_body (Text (''Missing feature: '' @ n))
                        (Some [(''validation'', ''processing'')]) \<rparr>, [])"
  using assms by (simp add: predict_def predict_try_def log1_def)

lemma detailed_analysis_missing:
  assumes "model g = Some m" "scaler g = Some s" "feature_info g = Some fi"
    and "extract_features P data (names fi) [] = Missing n"
  shows "detailed_analysis P g (Inr data) =
           (\<lparr> code = 400, body = Error_body (Text (''Missing feature: '' @ n)) None \<rparr>, [])"
  using assms by (simp add: detailed_analysis_def detailed_analysis_try_def)

lemma extract_features_present:
  assumes "\<forall>k \<in> set ns. \<exists>v x. map_of d k = Some v \<and> py_float P v = Inr x"
  shows "\<exists>fs. extract_features P (JObj d) ns acc = Extracted (acc @ fs) \<and> length fs = length ns"
  using assms
proof (induction ns arbitrary: acc)
  case Nil
  then show ?case by simp
next
  case (Cons k ns)
  then obtain v x where kv: "map_of d k = Some v" "py_float P v = Inr x" by auto
  from Cons obtain fs where
    "extract_features P (JObj d) ns (acc @ [x]) = Extracted ((acc @ [x]) @ fs)"
    "length fs = length ns"
    by (metis list.set_intros(2))
  with kv show ?case
    by (intro exI [of _ "x # fs"]) simp
qed

lemma extract_features_values:
  assumes "extract_features P (JObj d) ns acc = Extracted fs"
  shows "\<exists>xs. fs = acc @ xs \<and> length xs = length ns
           \<and> (\<forall>(n, x) \<in> set (zip ns xs). \<exists>v. map_of d n = Some v \<and> py_float P v = Inr x)"
  using assms
proof (induction ns arbitrary: acc)
  case Nil
  then show ?case by simp
next
  case (Cons k ns)
  from Cons.prems obtain v x where kv: "map_of d k = Some v" "py_float P v = Inr x"
    and rest: "extract_features P (JObj d) ns (acc @ [x]) = Extracted fs"
    by (auto split: if_splits option.splits sum.splits bool.splits)
  from Cons.IH [OF rest] obtain xs where xs: "fs = (acc @ [x]) @ xs" "length xs = length ns"
    "\<forall>(n, x) \<in> set (zip ns xs). \<exists>v. map_of d n = Some v \<and> py_float P v = Inr x"
    by blast
  with kv show ?case
    by (intro exI [of _ "x # xs"]) auto
qed

lemma zip_member: "length xs = length ns \<Longrightarrow> n \<in> set ns \<Longrightarrow> \<exists>x. (n, x) \<in> set (zip ns xs)"
  by (metis in_set_impl_in_set_zip1)

lemma extract_features_lacking:
  assumes "\<exists>k \<in> set ns. map_of d k = None"
  shows "extract_features P (JObj d) ns acc \<noteq> Extracted fs"
proof
  assume "extract_features P (JObj d) ns acc = Extracted fs"
  from extract_features_values [OF this] obtain xs where
    len: "length xs = length ns"
    and vals: "\<forall>(n, x) \<in> set (zip ns xs). \<exists>v. map_of d n = Some v \<and> py_float P v = Inr x"
    by blast
  from assms obtain k where k: "k \<in> set ns" "map_of d k = None" by blast
  from zip_member [OF len k(1)] obtain x where "(k, x) \<in> set (zip ns xs)" ..
  with vals k(2) show False by auto
qed

lemma no_calls_without_extraction:
  assumes "model g = Some m" "scaler g = Some s" "feature_info g = Some fi"
    and "\<forall>fs. extract_features P data (names fi) [] \<noteq> Extracted fs"
  shows "snd (predict P g (Inr data)) = [] \<and> snd (detailed_analysis P g (Inr data)) = []"
  using assms
  by (cases "extract_features P data (names fi) []")
     (simp_all add: predict_def predict_try_def detailed_analysis_def detailed_analysis_try_def)

subsection \<open>What an answered request went through\<close>

lemma py_get_Inr: "py_get data k dflt = Inr v \<longleftrightarrow> (\<exists>d. data = JObj d \<and> v = dict_get d k dflt)"
  by (cases data) auto

lemma py_lt_Inr: "py_lt v c = Inr b \<longleftrightarrow> (\<exists>x. py_num v = Some x \<and> b = (x < c))"
  by (auto simp: py_lt_def split: option.splits)

lemma py_gt_Inr: "py_gt v c = Inr b \<longleftrightarrow> (\<exists>x. py_num v = Some x \<and> b = (c < x))"
  by (auto simp: py_gt_def split: option.splits)

lemma risk_factors_Inr:
  assumes "risk_factors data = Inr rf"
  shows "\<exists>d x1 x2 x3 x5. data = JObj d
     \<and> py_num (dict_get d ''particle_size_nm'' (JInt 0)) = Some x1
     \<and> py_num (dict_get d ''surface_area_m2g'' (JInt 0)) = Some x2
     \<and> py_num (dict_get d ''concentration_mgl'' (JInt 0)) = Some x3
     \<and> py_num (dict_get d ''aspect_ratio'' (JInt 1)) = Some x5
     \<and> rf = risk_messages (x1 < 50) (100 < x2) (100 < x3)
               (py_eq_one (dict_get d ''material_type'' (JInt 0))) (10 < x5)"
  using assms unfolding risk_factors_def
  by (auto simp: bind_exn_Inr_iff py_get_Inr py_lt_Inr py_gt_Inr)

lemma risk_factors_raw:
  assumes "risk_factors (JObj d) = Inr rf"
  shows "rf = risk_messages
           (py_lt (dict_get d ''particle_size_nm'' (JInt 0)) 50 = Inr True)
           (py_gt (dict_get d ''surface_area_m2g'' (JInt 0)) 100 = Inr True)
           (py_gt (dict_get d ''concentration_mgl'' (JInt 0)) 100 = Inr True)
           (py_eq_one (dict_get d ''material_type'' (JInt 0)))
           (py_gt (dict_get d ''aspect_ratio'' (JInt 1)) 10 = Inr True)"
  using risk_factors_Inr [OF assms] by (auto simp: py_lt_def py_gt_def)

lemma nth_err_Inr: "nth_err xs i = Inr x \<longleftrightarrow> (i < length xs \<and> x = xs ! i)"
  by (auto simp: nth_err_def)

lemma interpret_result_Inr:
  assumes "interpret_result data prob cls = Inr res"
  shows "\<exists>mx rf. py_max prob = Inr mx \<and> 2 \<le> length prob \<and> risk_factors data = Inr rf
      \<and> res = \<lparr> pr_prediction = cls,
            pr_prediction_text = (if cls = 1 then ''Toxic'' else ''Non-Toxic''),
            pr_confidence = np_round (fmul mx 100) 2,
            pr_non_toxic = np_round (fmul (prob ! 0) 100) 2,
            pr_toxic = np_round (fmul (prob ! 1) 100) 2,
            pr_risk_level = risk_level_of (fmul (prob ! 1) 100),
            pr_risk_factors = rf,
            pr_status_log = log8 \<rparr>"
  using assms unfolding interpret_result_def
  by (auto simp: bind_exn_Inr_iff nth_err_Inr)

lemma interpret_result_ok:
  assumes "2 \<le> length prob" "risk_factors data = Inr rf"
  shows "\<exists>mx. py_max prob = Inr mx \<and> interpret_result data prob cls = Inr \<lparr> pr_prediction = cls,
            pr_prediction_text = (if cls = 1 then ''Toxic'' else ''Non-Toxic''),
            pr_confidence = np_round (fmul mx 100) 2,
            pr_non_toxic = np_round (fmul (prob ! 0) 100) 2,
            pr_toxic = np_round (fmul (prob ! 1) 100) 2,
            pr_risk_level = risk_level_of (fmul (prob ! 1) 100),
            pr_risk_factors = rf,
            pr_status_log = log8 \<rparr>"
  using assms unfolding interpret_result_def
  by (cases prob) (auto simp: nth_err_def)

lemma predict_succeeds:
  assumes loaded: "model g = Some m" "scaler g = Some s" "feature_info g = Some fi"
    and present: "\<forall>k \<in> set (names fi). \<exists>v x. map_of d k = Some v \<and> py_float P v = Inr x"
    and inference: "\<forall>xs. length xs = length (names fi) \<longrightarrow>
        (\<exists>ys p c. transform s xs = Inr ys \<and> predict_proba m ys = Inr p \<and> 2 \<le> length p
           \<and> Q p \<and> predict_class m ys = Inr c)"
    and rf: "risk_factors (JObj d) = Inr rf"
  shows "\<exists>cs p c mx. py_max p = Inr mx \<and> 2 \<le> length p \<and> Q p \<and>
     predict P g (Inr (JObj d)) =
       (\<lparr> code = 200,
           body = Predict_body \<lparr> pr_prediction = c,
            pr_prediction_text = (if c = 1 then ''Toxic'' else ''Non-Toxic''),
            pr_confidence = np_round (fmul mx 100) 2,
            pr_non_toxic = np_round (fmul (p ! 0) 100) 2,
            pr_toxic = np_round (fmul (p ! 1) 100) 2,
            pr_risk_level = risk_level_of (fmul (p ! 1) 100),
            pr_risk_factors = rf,
            pr_status_log = log8 \<rparr> \<rparr>, cs)"
proof -
  from extract_features_present [OF present, of "[]"] obtain fs where
    fs: "extract_features P (JObj d) (names fi) [] = Extracted fs" "length fs = length (names fi)"
    by auto
  with inference obtain ys p c where
    inf: "transform s fs = Inr ys" "predict_proba m ys = Inr p" "2 \<le> length p" "Q p"
      "predict_class m ys = Inr c"
    by blast
  from interpret_result_ok [OF inf(3) rf, of c] obtain mx where
    mx: "py_max p = Inr mx" and
    ir: "interpret_result (JObj d) p c = Inr \<lparr> pr_prediction = c,
            pr_prediction_text = (if c = 1 then ''Toxic'' else ''Non-Toxic''),
            pr_confidence = np_round (fmul mx 100) 2,
            pr_non_toxic = np_round (fmul (p ! 0) 100) 2,
            pr_toxic = np_round (fmul (p ! 1) 100) 2,
            pr_risk_level = risk_level_of (fmul (p ! 1) 100),
            pr_risk_factors = rf,
            pr_status_log = log8 \<rparr>"
    by blast
  have "predict P g (Inr (JObj d)) =
       (\<lparr> code = 200,
           body = Predict_body \<lparr> pr_prediction = c,
            pr_prediction_text = (if c = 1 then ''Toxic'' else ''Non-Toxic''),
            pr_confidence = np_round (fmul mx 100) 2,
            pr_non_toxic = np_round (fmul (p ! 0) 100) 2,
            pr_toxic = np_round (fmul (p ! 1) 100) 2,
            pr_risk_level = risk_level_of (fmul (p ! 1) 100),
            pr_risk_factors = rf,
            pr_status_log = log8 \<rparr> \<rparr>,
        [Scaler_transform fs, Predict_proba ys, Predict ys])"
    using loaded fs inf ir by (simp add: predict_def predict_try_def)
  with mx inf show ?thesis by blast
qed

lemma build_analysis_Inr:
  assumes "build_analysis fi m data features scaled prob cls = Inr a"
  shows "\<exists>fa recs. 2 \<le> length prob
     \<and> analyse_features fi m scaled (enumerate 0 (zip (names fi) features)) [] = Inr fa
     \<and> recommendations data = Inr recs
     \<and> an_feature_analysis a = fa
     \<and> an_overall_risk a = overall_risk_of (prob ! 1)"
  using assms unfolding build_analysis_def
  by (auto simp: bind_exn_Inr_iff nth_err_Inr)

lemma answered_prediction_percentages:
  assumes "predict P g req = (r, cs)" and "code r = 200"
  shows "\<exists>m res features scaled prob cls.
           model g = Some m
         \<and> cs = [Scaler_transform features, Predict_proba scaled, Predict scaled]
         \<and> predict_proba m scaled = Inr prob \<and> predict_class m scaled = Inr cls
         \<and> 2 \<le> length prob
         \<and> body r = Predict_body res
         \<and> pr_prediction res = cls
         \<and> pr_non_toxic res = np_round (fmul (prob ! 0) 100) 2
         \<and> pr_toxic res = np_round (fmul (prob ! 1) 100) 2
         \<and> pr_risk_level res = risk_level_of (fmul (prob ! 1) 100)"
proof -
  from predict_200 [OF assms] obtain m s fi where
    m: "model g = Some m" and run: "predict_try P m s fi req = (r, cs)"
    by blast
  from predict_try_200 [OF run assms(2)] obtain data features scaled prob cls res where
    parts: "predict_proba m scaled = Inr prob" "predict_class m scaled = Inr cls"
      "interpret_result data prob cls = Inr res" "r = \<lparr> code = 200, body = Predict_body res \<rparr>"
      "cs = [Scaler_transform features, Predict_proba scaled, Predict scaled]"
    by auto
  from interpret_result_Inr [OF parts(3)] have
    res: "2 \<le> length prob" "pr_prediction res = cls"
      "pr_non_toxic res = np_round (fmul (prob ! 0) 100) 2"
      "pr_toxic res = np_round (fmul (prob ! 1) 100) 2"
      "pr_risk_level res = risk_level_of (fmul (prob ! 1) 100)"
    by auto
  with m parts show ?thesis by auto
qed

lemma answered_analysis_risk:
  assumes "detailed_analysis P g req = (r, cs)" and "code r = 200"
  shows "\<exists>m a features scaled prob data recs.
           model g = Some m
         \<and> cs = [Scaler_transform features, Predict_proba scaled, Predict scaled]
         \<and> predict_proba m scaled = Inr prob \<and> 2 \<le> length prob
         \<and> req = Inr data \<and> recommendations data = Inr recs
         \<and> body r = Analysis_body a
         \<and> an_overall_risk a = overall_risk_of (prob ! 1)"
proof -
  from detailed_analysis_200 [OF assms] obtain m s fi where
    m: "model g = Some m" and run: "detailed_analysis_try P m s fi req = (r, cs)"
    by blast
  from detailed_analysis_try_200 [OF run assms(2)] obtain data features scaled prob cls a where
    parts: "req = Inr data" "predict_proba m scaled = Inr prob"
      "build_analysis fi m data features scaled prob cls = Inr a"
      "r = \<lparr> code = 200, body = Analysis_body a \<rparr>"
      "cs = [Scaler_transform features, Predict_proba scaled, Predict scaled]"
    by auto
  from build_analysis_Inr [OF parts(3)] obtain recs where
    "2 \<le> length prob" "recommendations data = Inr recs"
    "an_overall_risk a = overall_risk_of (prob ! 1)"
    by auto
  with m parts show ?thesis by auto
qed

subsection \<open>The handlers on the sample requests\<close>

lemmas sample_arith =
  py_float_small_int binary64_numeral np_round_numeral np_round_fractions fmul_def


lemma two_feature_prediction:
  "predict P (sample_globals two_features) (Inr (JObj two_feature_data)) =
  (\<lparr> code = 200, body = Predict_body \<lparr> pr_prediction = 1,
            pr_prediction_text = ''Toxic'',
            pr_confidence = 75,
            pr_non_toxic = 25,
            pr_toxic = 75,
            pr_risk_level = ''High'',
            pr_risk_factors = [''Small particle size increases bioavailability'',
   ''High surface area enhances reactivity''],
            pr_status_log = log8 \<rparr> \<rparr>,
   [Scaler_transform [30, 150], Predict_proba [- 2, 10], Predict [- 2, 10]])"
  by (simp add: predict_def predict_try_def sample_globals_def two_features_def two_feature_data_def
      sample_scaler_def sample_model_def sample_toxic_def interpret_result_def nth_err_def
      risk_factors_def dict_get_def py_lt_def py_gt_def py_eq_one_def risk_messages_def
      risk_level_of_def sample_arith del: py_float.simps)

lemma two_feature_analysis:
  "detailed_analysis P (sample_globals two_features) (Inr (JObj two_feature_data)) =
  (\<lparr> code = 200, body = Analysis_body
     \<lparr> an_class = 1,
       an_text = ''Toxic'',
       an_confidence = 75,
       an_non_toxic = 25,
       an_toxic = 75,
       an_feature_analysis =
         [(''particle_size_nm'',
            \<lparr> fe_value = 30, fe_description = ''particle_size_nm'', fe_importance = 1 / 2,
              fe_risk_level = ''High'', fe_normalized_value = - 2 \<rparr>),
          (''surface_area_m2g'',
            \<lparr> fe_value = 150, fe_description = ''surface_area_m2g'', fe_importance = 1 / 4,
              fe_risk_level = ''Low'', fe_normalized_value = 10 \<rparr>)],
       an_overall_risk = ''High'',
       an_risk_factors = [],
       an_safety_recommendations = [''Consider larger particle sizes to reduce bioavailability''],
       an_chart_importance = [(''particle_size_nm'', 50), (''surface_area_m2g'', 25)],
       an_risk_distribution =
         [(''Low Risk Features'', 1), (''Medium Risk Features'', 0), (''High Risk Features'', 1)] \<rparr> \<rparr>,
   [Scaler_transform [30, 150], Predict_proba [- 2, 10], Predict [- 2, 10]])"
  by (simp add: detailed_analysis_def detailed_analysis_try_def sample_globals_def two_features_def
      two_feature_data_def sample_scaler_def sample_model_def sample_toxic_def build_analysis_def
      nth_err_def enumerate_eq_zip description_of_def feature_risk_def recommendations_def
      dict_get_def py_lt_def py_gt_def overall_risk_of_def float_0_7_def count_level_def
      sample_arith del: py_float.simps)



subsection \<open>The risk-factor list on numeric raw values\<close>

text \<open>
  In a 200 response of \<^verbatim>\<open>predict\<close> the four compared raw values are numbers, and the list
  holds, in source order, the message of each test that holds.
\<close>

lemma answered_risk_factors:
  assumes "predict P g (Inr (JObj d)) = (r, cs)" and "code r = 200"
  shows "\<exists>res x1 x2 x3 x5. body r = Predict_body res
     \<and> py_num (dict_get d ''particle_size_nm'' (JInt 0)) = Some x1
     \<and> py_num (dict_get d ''surface_area_m2g'' (JInt 0)) = Some x2
     \<and> py_num (dict_get d ''concentration_mgl'' (JInt 0)) = Some x3
     \<and> py_num (dict_get d ''aspect_ratio'' (JInt 1)) = Some x5
     \<and> pr_risk_factors res =
         (if x1 < 50 then [''Small particle size increases bioavailability''] else [])
       @ (if 100 < x2 then [''High surface area enhances reactivity''] else [])
       @ (if 100 < x3 then [''High concentration increases exposure risk''] else [])
       @ (if py_num (dict_get d ''material_type'' (JInt 0)) = Some 1
          then [''Metal nanoparticles can have higher toxicity''] else [])
       @ (if 10 < x5 then [''High aspect ratio (fiber-like) may cause inflammation''] else [])"
proof -
  from predict_200 [OF assms] obtain m s fi where
    "predict_try P m s fi (Inr (JObj d)) = (r, cs)" by blast
  from predict_try_200 [OF this assms(2)] obtain prob cls res where
    res: "interpret_result (JObj d) prob cls = Inr res" "r = \<lparr> code = 200, body = Predict_body res \<rparr>"
    by auto
  from interpret_result_Inr [OF res(1)] obtain rf where
    rf: "risk_factors (JObj d) = Inr rf" "pr_risk_factors res = rf"
    by auto
  from risk_factors_Inr [OF rf(1)] rf(2) res(2) show ?thesis
    by (auto simp: risk_messages_def py_eq_one_def)
qed

lemma dict_get_update:
  "map_of d' = (map_of d)(k \<mapsto> v) \<Longrightarrow> key \<noteq> k \<Longrightarrow> dict_get d' key dflt = dict_get d key dflt"
  by (simp add: dict_get_def)

lemma risk_messages_grow:
  "set (risk_messages False c2 c3 c4 c5) \<subseteq> set (risk_messages True c2 c3 c4 c5)"
  "set (risk_messages c1 False c3 c4 c5) \<subseteq> set (risk_messages c1 True c3 c4 c5)"
  "set (risk_messages c1 c2 False c4 c5) \<subseteq> set (risk_messages c1 c2 True c4 c5)"
  "set (risk_messages c1 c2 c3 False c5) \<subseteq> set (risk_messages c1 c2 c3 True c5)"
  "set (risk_messages c1 c2 c3 c4 False) \<subseteq> set (risk_messages c1 c2 c3 c4 True)"
  unfolding risk_messages_def by (simp_all add: subset_iff)

lemma one_test_changed:
  assumes "f \<in> set (h b)" "f \<notin> set (h a)" "set (h False) \<subseteq> set (h True)"
  shows "set (h a) \<subseteq> set (h b)"
  using assms by (cases a; cases b) auto

lemma risk_messages_one_change:
  assumes "f \<in> set new" "f \<notin> set old"
  shows "old = risk_messages a c2 c3 c4 c5 \<Longrightarrow> new = risk_messages b c2 c3 c4 c5 \<Longrightarrow> set old \<subseteq> set new"
    and "old = risk_messages c1 a c3 c4 c5 \<Longrightarrow> new = risk_messages c1 b c3 c4 c5 \<Longrightarrow> set old \<subseteq> set new"
    and "old = risk_messages c1 c2 a c4 c5 \<Longrightarrow> new = risk_messages c1 c2 b c4 c5 \<Longrightarrow> set old \<subseteq> set new"
    and "old = risk_messages c1 c2 c3 a c5 \<Longrightarrow> new = risk_messages c1 c2 c3 b c5 \<Longrightarrow> set old \<subseteq> set new"
    and "old = risk_messages c1 c2 c3 c4 a \<Longrightarrow> new = risk_messages c1 c2 c3 c4 b \<Longrightarrow> set old \<subseteq> set new"
proof -
  show "old = risk_messages a c2 c3 c4 c5 \<Longrightarrow> new = risk_messages b c2 c3 c4 c5 \<Longrightarrow> set old \<subseteq> set new"
    using assms one_test_changed [of f "\<lambda>x. risk_messages x c2 c3 c4 c5" b a]
      risk_messages_grow(1) by simp
  show "old = risk_messages c1 a c3 c4 c5 \<Longrightarrow> new = risk_messages c1 b c3 c4 c5 \<Longrightarrow> set old \<subseteq> set new"
    using assms one_test_changed [of f "\<lambda>x. risk_messages c1 x c3 c4 c5" b a]
      risk_messages_grow(2) by simp
  show "old = risk_messages c1 c2 a c4 c5 \<Longrightarrow> new = risk_messages c1 c2 b c4 c5 \<Longrightarrow> set old \<subseteq> set new"
    using assms one_test_changed [of f "\<lambda>x. risk_messages c1 c2 x c4 c5" b a]
      risk_messages_grow(3) by simp
  show "old = risk_messages c1 c2 c3 a c5 \<Longrightarrow> new = risk_messages c1 c2 c3 b c5 \<Longrightarrow> set old \<subseteq> set new"
    using assms one_test_changed [of f "\<lambda>x. risk_messages c1 c2 c3 x c5" b a]
      risk_messages_grow(4) by simp
  show "old = risk_messages c1 c2 c3 c4 a \<Longrightarrow> new = risk_messages c1 c2 c3 c4 b \<Longrightarrow> set old \<subseteq> set new"
    using assms one_test_changed [of f "\<lambda>x. risk_messages c1 c2 c3 c4 x" b a]
      risk_messages_grow(5) by simp
qed

lemma risk_factors_monotone:
  assumes rf: "risk_factors (JObj d) = Inr rf" and rf': "risk_factors (JObj d') = Inr rf'"
    and upd: "map_of d' = (map_of d)(k \<mapsto> v)"
    and new: "f \<in> set rf'" "f \<notin> set rf"
  shows "set rf \<subseteq> set rf'"
proof -
  note a = risk_factors_raw [OF rf] and b = risk_factors_raw [OF rf']
  note same = dict_get_update [OF upd]
  consider (size) "k = ''particle_size_nm''" | (area) "k = ''surface_area_m2g''"
    | (conc) "k = ''concentration_mgl''" | (metal) "k = ''material_type''"
    | (ratio) "k = ''aspect_ratio''"
    | (other) "k \<noteq> ''particle_size_nm''" "k \<noteq> ''surface_area_m2g''" "k \<noteq> ''concentration_mgl''"
        "k \<noteq> ''material_type''" "k \<noteq> ''aspect_ratio''"
    by blast
  then show ?thesis
  proof cases
    case size
    show ?thesis
      by (rule risk_messages_one_change(1) [OF new a]) (simp add: b same size)
  next
    case area
    show ?thesis
      by (rule risk_messages_one_change(2) [OF new a]) (simp add: b same area)
  next
    case conc
    show ?thesis
      by (rule risk_messages_one_change(3) [OF new a]) (simp add: b same conc)
  next
    case metal
    show ?thesis
      by (rule risk_messages_one_change(4) [OF new a]) (simp add: b same metal)
  next
    case ratio
    show ?thesis
      by (rule risk_messages_one_change(5) [OF new a]) (simp add: b same ratio)
  next
    case other
    then have "rf' = rf" by (simp add: a b same)
    with new show ?thesis by simp
  qed
qed

lemma map_of_zero_entries:
  "map_of (map (\<lambda>n. (n, JInt 0)) ns) k = (if k \<in> set ns then Some (JInt 0) else None)"
  by (induction ns) auto

lemma threshold_tests:
  "py_lt (JInt (if c then 0 else 50)) 50 = Inr c"
  "py_gt (JInt (if c then 101 else 0)) 100 = Inr c"
  "py_gt (JInt (if c then 11 else 0)) 10 = Inr c"
  "py_eq_one (JInt (if c then 1 else 0)) = c"
  by (cases c; simp add: py_lt_def py_gt_def py_eq_one_def)+

lemma py_float_small_choice:
  "\<bar>a\<bar> < 2 ^ 53 \<Longrightarrow> \<bar>b\<bar> < 2 ^ 53 \<Longrightarrow> \<exists>x. py_float P (JInt (if c then a else b)) = Inr x"
  by (cases c) (simp_all only: if_True if_False py_float_numeric)

lemma any_subset_fires:
  assumes loaded: "model g = Some m" "scaler g = Some s" "feature_info g = Some fi"
    and inference: "\<forall>xs. length xs = length (names fi) \<longrightarrow>
        (\<exists>ys p c. transform s xs = Inr ys \<and> predict_proba m ys = Inr p \<and> 2 \<le> length p
           \<and> predict_class m ys = Inr c)"
  shows "\<exists>d res cs. predict P g (Inr (JObj d)) = (\<lparr> code = 200, body = Predict_body res \<rparr>, cs)
           \<and> pr_risk_factors res =
               (if c1 then [''Small particle size increases bioavailability''] else [])
             @ (if c2 then [''High surface area enhances reactivity''] else [])
             @ (if c3 then [''High concentration increases exposure risk''] else [])
             @ (if c4 then [''Metal nanoparticles can have higher toxicity''] else [])
             @ (if c5 then [''High aspect ratio (fiber-like) may cause inflammation''] else [])"
proof -
  let ?d = "[(''particle_size_nm'', JInt (if c1 then 0 else 50)),
             (''surface_area_m2g'', JInt (if c2 then 101 else 0)),
             (''concentration_mgl'', JInt (if c3 then 101 else 0)),
             (''material_type'', JInt (if c4 then 1 else 0)),
             (''aspect_ratio'', JInt (if c5 then 11 else 0))]
            @ map (\<lambda>n. (n, JInt 0)) (names fi)"
  have zero: "\<exists>x. py_float P (JInt 0) = Inr x"
    by (rule py_float_numeric) simp
  have present: "\<forall>k \<in> set (names fi). \<exists>v x. map_of ?d k = Some v \<and> py_float P v = Inr x"
  proof
    fix k
    assume "k \<in> set (names fi)"
    with zero show "\<exists>v x. map_of ?d k = Some v \<and> py_float P v = Inr x"
      by (simp del: py_float.simps add: map_of_zero_entries py_float_small_choice)
  qed
  have inference': "\<forall>xs. length xs = length (names fi) \<longrightarrow>
        (\<exists>ys p c. transform s xs = Inr ys \<and> predict_proba m ys = Inr p \<and> 2 \<le> length p
           \<and> True \<and> predict_class m ys = Inr c)"
    using inference by simp
  have rf: "risk_factors (JObj ?d) = Inr (risk_messages c1 c2 c3 c4 c5)"
    by (simp add: risk_factors_def dict_get_def threshold_tests)
  from predict_succeeds [OF loaded present, of "\<lambda>p. True", OF inference' rf]
  obtain cs p c mx where
    "predict P g (Inr (JObj ?d)) =
       (\<lparr> code = 200,
           body = Predict_body \<lparr> pr_prediction = c,
            pr_prediction_text = (if c = 1 then ''Toxic'' else ''Non-Toxic''),
            pr_confidence = np_round (fmul mx 100) 2,
            pr_non_toxic = np_round (fmul (p ! 0) 100) 2,
            pr_toxic = np_round (fmul (p ! 1) 100) 2,
            pr_risk_level = risk_level_of (fmul (p ! 1) 100),
            pr_risk_factors = risk_messages c1 c2 c3 c4 c5,
            pr_status_log = log8 \<rparr> \<rparr>, cs)"
    by blast
  then show ?thesis
    by (intro exI conjI) (assumption, simp add: risk_messages_def)
qed

subsection \<open>The per-feature entries\<close>

lemma map_of_dict_set: "map_of (dict_set d k v) = (map_of d)(k \<mapsto> v)"
  by (induction d) auto

lemma analyse_features_entries:
  assumes "analyse_features fi m sc ts acc = Inr fa"
    and "\<forall>(i, n, x) \<in> set ts. val n = x"
    and "\<forall>n e. map_of acc n = Some e \<longrightarrow>
           fe_value e = val n \<and> fe_risk_level e = feature_risk n (val n)"
  shows "(\<forall>n e. map_of fa n = Some e \<longrightarrow>
            fe_value e = val n \<and> fe_risk_level e = feature_risk n (val n))
       \<and> (\<forall>(i, n, x) \<in> set ts. map_of fa n \<noteq> None)
       \<and> (\<forall>n. map_of acc n \<noteq> None \<longrightarrow> map_of fa n \<noteq> None)"
  using assms
proof (induction ts arbitrary: acc)
  case Nil
  then show ?case by simp
next
  case (Cons t ts)
  obtain i n x where t: "t = (i, n, x)" by (cases t) auto
  from Cons.prems(1) t obtain desc imp si where
    rest: "analyse_features fi m sc ts
       (dict_set acc n
          \<lparr> fe_value = x,
            fe_description = desc,
            fe_importance = np_round imp 4,
            fe_risk_level = feature_risk n x,
            fe_normalized_value = np_round si 3 \<rparr>) = Inr fa"
    by (auto simp: bind_exn_Inr_iff)
  let ?acc = "dict_set acc n
          \<lparr> fe_value = x,
            fe_description = desc,
            fe_importance = np_round imp 4,
            fe_risk_level = feature_risk n x,
            fe_normalized_value = np_round si 3 \<rparr>"
  from Cons.prems(2) t have vx: "val n = x" and vts: "\<forall>(i, n, x) \<in> set ts. val n = x"
    by auto
  have inv: "\<forall>n' e. map_of ?acc n' = Some e \<longrightarrow>
           fe_value e = val n' \<and> fe_risk_level e = feature_risk n' (val n')"
    using Cons.prems(3) vx by (auto simp: map_of_dict_set)
  from Cons.IH [OF rest vts inv]
  have ih: "(\<forall>n e. map_of fa n = Some e \<longrightarrow>
            fe_value e = val n \<and> fe_risk_level e = feature_risk n (val n))"
     "(\<forall>(i, n, x) \<in> set ts. map_of fa n \<noteq> None)"
     "(\<forall>n'. map_of ?acc n' \<noteq> None \<longrightarrow> map_of fa n' \<noteq> None)"
    by blast+
  from ih(3) have "map_of fa n \<noteq> None" and "\<forall>n'. map_of acc n' \<noteq> None \<longrightarrow> map_of fa n' \<noteq> None"
    by (auto simp: map_of_dict_set)
  with ih(1,2) t show ?case by auto
qed

lemma enumerate_member:
  assumes "z \<in> set zs"
  shows "\<exists>i. (i, z) \<in> set (enumerate 0 zs)"
proof -
  from assms obtain i where "i < length zs" "zs ! i = z"
    by (auto simp: in_set_conv_nth)
  then have "(i, z) \<in> set (enumerate 0 zs)"
    by (simp add: in_set_enumerate_eq)
  then show ?thesis ..
qed

lemma enumerate_snd: "(i, z) \<in> set (enumerate k zs) \<Longrightarrow> z \<in> set zs"
  by (auto simp: in_set_enumerate_eq)

lemma detailed_analysis_entries_tier:
  assumes run: "detailed_analysis P g (Inr (JObj d)) = (r, cs)" and ok: "code r = 200"
    and fi: "feature_info g = Some fi"
  shows "\<exists>a. body r = Analysis_body a
     \<and> (\<forall>n \<in> set (names fi). \<exists>v x e. map_of d n = Some v \<and> py_float P v = Inr x
           \<and> map_of (an_feature_analysis a) n = Some e \<and> fe_value e = x
           \<and> fe_risk_level e = feature_risk n x)"
proof -
  from detailed_analysis_200 [OF run ok] fi obtain m s where
    "detailed_analysis_try P m s fi (Inr (JObj d)) = (r, cs)"
    by auto
  from detailed_analysis_try_200 [OF this ok] obtain features scaled prob cls a where
    ex: "extract_features P (JObj d) (names fi) [] = Extracted features"
    and ba: "build_analysis fi m (JObj d) features scaled prob cls = Inr a"
    and r: "r = \<lparr> code = 200, body = Analysis_body a \<rparr>"
    by auto
  from build_analysis_Inr [OF ba] have
    af: "analyse_features fi m scaled (enumerate 0 (zip (names fi) features)) [] =
           Inr (an_feature_analysis a)"
    by auto
  from extract_features_values [OF ex] have
    len: "length features = length (names fi)"
    and vals: "\<forall>(n, x) \<in> set (zip (names fi) features).
                 \<exists>v. map_of d n = Some v \<and> py_float P v = Inr x"
    by auto
  define val where "val n = (case map_of d n of
       None \<Rightarrow> 0 | Some v \<Rightarrow> (case py_float P v of Inl e \<Rightarrow> 0 | Inr x \<Rightarrow> x))" for n
  have val: "\<forall>(n, x) \<in> set (zip (names fi) features). val n = x"
    using vals by (auto simp: val_def)
  then have val': "\<forall>(i, n, x) \<in> set (enumerate 0 (zip (names fi) features)). val n = x"
    by (auto dest: enumerate_snd)
  from analyse_features_entries [OF af val'] have
    ent: "\<forall>n e. map_of (an_feature_analysis a) n = Some e \<longrightarrow>
            fe_value e = val n \<and> fe_risk_level e = feature_risk n (val n)"
    and dom: "\<forall>(i, n, x) \<in> set (enumerate 0 (zip (names fi) features)).
            map_of (an_feature_analysis a) n \<noteq> None"
    by simp_all
  have "\<exists>v x e. map_of d n = Some v \<and> py_float P v = Inr x
           \<and> map_of (an_feature_analysis a) n = Some e \<and> fe_value e = x
           \<and> fe_risk_level e = feature_risk n x" if n: "n \<in> set (names fi)" for n
  proof -
    from zip_member [OF len n] obtain x where x: "(n, x) \<in> set (zip (names fi) features)" ..
    with vals obtain v where v: "map_of d n = Some v" "py_float P v = Inr x" by auto
    from x val have vx: "val n = x" by auto
    from enumerate_member [OF x] obtain i where
      "(i, n, x) \<in> set (enumerate 0 (zip (names fi) features))" ..
    with dom obtain e where e: "map_of (an_feature_analysis a) n = Some e" by auto
    with ent vx have "fe_value e = x" "fe_risk_level e = feature_risk n x" by auto
    with v e show ?thesis by blast
  qed
  with r show ?thesis by auto
qed

lemma detailed_analysis_entries:
  assumes run: "detailed_analysis P g (Inr (JObj d)) = (r, cs)" and ok: "code r = 200"
    and fi: "feature_info g = Some fi"
  shows "\<exists>a. body r = Analysis_body a
     \<and> (\<forall>n \<in> set (names fi). \<exists>v x e. map_of d n = Some v \<and> py_float P v = Inr x
           \<and> map_of (an_feature_analysis a) n = Some e \<and> fe_value e = x
           \<and> fe_risk_level e =
               (if n = ''particle_size_nm'' \<and> x < 50 then ''High''
                else if n = ''surface_area_m2g'' \<and> x > 200 then ''Medium''
                else if n = ''concentration_mgl'' \<and> x > 500 then ''High''
                else if n = ''zeta_potential_mv'' \<and> \<bar>x\<bar> < 15 then ''Medium''
                else ''Low''))"
  using detailed_analysis_entries_tier [OF assms] unfolding feature_risk_def .

subsection \<open>Requests with a numeric string\<close>

lemma string_value_risk_factors: "risk_factors (JObj test_data_str) = Inl TypeError"
  by (simp add: risk_factors_def test_data_str_def dict_get_def py_lt_def)

lemma string_particle_risk_factors: "risk_factors (JObj string_particle_data) = Inl TypeError"
  by (simp add: risk_factors_def string_particle_data_def dict_get_def py_lt_def)

lemma string_particle_recommendations:
  "recommendations (JObj string_particle_data) = Inl TypeError"
  by (simp add: recommendations_def string_particle_data_def dict_get_def py_lt_def)

lemma string_particle_extraction:
  "P ''30'' = Some 30 \<Longrightarrow>
     extract_features P (JObj string_particle_data) two_features [] = Extracted [30, 150]"
  by (simp add: string_particle_data_def two_features_def py_float_small_int del: py_float.simps(3))

lemma narrow_string_risk_factors: "risk_factors (JObj narrow_string_data) = Inl TypeError"
  by (simp add: risk_factors_def narrow_string_data_def dict_get_def py_lt_def)

lemma narrow_string_extraction:
  "P ''30'' = Some 30 \<Longrightarrow>
     extract_features P (JObj narrow_string_data) checked_features [] =
       Extracted [30, 150, 200, 1, 12]"
  by (simp add: narrow_string_data_def checked_features_def py_float_small_int
      del: py_float.simps(3))

lemma wide_particle_prediction:
  "predict P (sample_globals checked_features) (Inr (JObj wide_particle_data)) =
  (\<lparr> code = 200, body = Predict_body \<lparr> pr_prediction = 0,
            pr_prediction_text = ''Non-Toxic'',
            pr_confidence = 75,
            pr_non_toxic = 75,
            pr_toxic = 25,
            pr_risk_level = ''Low'',
            pr_risk_factors =
              [''High surface area enhances reactivity'',
               ''High concentration increases exposure risk'',
               ''Metal nanoparticles can have higher toxicity'',
               ''High aspect ratio (fiber-like) may cause inflammation''],
            pr_status_log = log8 \<rparr> \<rparr>,
   [Scaler_transform [60, 150, 200, 1, 12],
    Predict_proba [1, 10, 15, - 49 / 10, - 38 / 10],
    Predict [1, 10, 15, - 49 / 10, - 38 / 10]])"
  by (simp add: predict_def predict_try_def sample_globals_def checked_features_def
      wide_particle_data_def sample_scaler_def sample_model_def sample_toxic_def
      interpret_result_def nth_err_def risk_factors_def dict_get_def py_lt_def py_gt_def
      py_eq_one_def risk_messages_def risk_level_of_def sample_arith del: py_float.simps)

lemma narrow_particle_prediction:
  "predict P (sample_globals checked_features) (Inr (JObj narrow_particle_data)) =
  (\<lparr> code = 200, body = Predict_body \<lparr> pr_prediction = 1,
            pr_prediction_text = ''Toxic'',
            pr_confidence = 75,
            pr_non_toxic = 25,
            pr_toxic = 75,
            pr_risk_level = ''High'',
            pr_risk_factors =
              [''Small particle size increases bioavailability'',
               ''High surface area enhances reactivity'',
               ''High concentration increases exposure risk'',
               ''Metal nanoparticles can have higher toxicity'',
               ''High aspect ratio (fiber-like) may cause inflammation''],
            pr_status_log = log8 \<rparr> \<rparr>,
   [Scaler_transform [30, 150, 200, 1, 12],
    Predict_proba [- 2, 10, 15, - 49 / 10, - 38 / 10],
    Predict [- 2, 10, 15, - 49 / 10, - 38 / 10]])"
  by (simp add: predict_def predict_try_def sample_globals_def checked_features_def
      narrow_particle_data_def sample_scaler_def sample_model_def sample_toxic_def
      interpret_result_def nth_err_def risk_factors_def dict_get_def py_lt_def py_gt_def
      py_eq_one_def risk_messages_def risk_level_of_def sample_arith del: py_float.simps)

section \<open>Validation of the request body\<close>

text \<open>
  Claim C1. With the three artifacts loaded, a request whose JSON object lacks at least
  one name of the feature list never reaches the scaler or the classifier: the list of
  calls is empty for \<^verbatim>\<open>/predict\<close> and for \<^verbatim>\<open>/detailed-analysis\<close>. When the object is a
  feature mapping, that is, its values are coercible by \<^verbatim>\<open>float\<close>, both handlers return
  400 with the error \<^verbatim>\<open>Missing feature: n\<close> for a name \<open>n\<close> of the list that the
  mapping lacks.
\<close>

theorem missing_feature_gives_400:
  assumes loaded: "model g = Some m" "scaler g = Some s" "feature_info g = Some fi"
    and lacks: "\<exists>k \<in> set (names fi). map_of d k = None"
  shows "snd (predict P g (Inr (JObj d))) = []
       \<and> snd (detailed_analysis P g (Inr (JObj d))) = []
       \<and> ((\<forall>(k, v) \<in> set d. \<exists>x. py_float P v = Inr x) \<longrightarrow>
            (\<exists>n \<in> set (names fi). map_of d n = None
               \<and> predict P g (Inr (JObj d)) =
                   (\<lparr> code = 400,
                       body = Error_body (Text (''Missing feature: '' @ n))
                                (Some [(''validation'', ''processing'')]) \<rparr>, [])
               \<and> detailed_analysis P g (Inr (JObj d)) =
                   (\<lparr> code = 400,
                       body = Error_body (Text (''Missing feature: '' @ n)) None \<rparr>, [])))"
proof (intro conjI impI)
  have "\<forall>fs. extract_features P (JObj d) (names fi) [] \<noteq> Extracted fs"
    using extract_features_lacking [OF lacks] by blast
  from no_calls_without_extraction [OF loaded this]
  show "snd (predict P g (Inr (JObj d))) = []"
    and "snd (detailed_analysis P g (Inr (JObj d))) = []"
    by simp_all
next
  assume coercible: "\<forall>(k, v) \<in> set d. \<exists>x. py_float P v = Inr x"
  from lacks obtain pre n post where
    split: "names fi = pre @ n # post" and n: "map_of d n = None"
    and pre: "\<forall>k \<in> set pre. map_of d k \<noteq> None"
    by (auto dest!: split_list_first_prop)
  from pre coercible have "\<forall>k \<in> set pre. \<exists>v x. map_of d k = Some v \<and> py_float P v = Inr x"
    by (fastforce dest: map_of_SomeD)
  then have ex: "extract_features P (JObj d) (names fi) [] = Missing n"
    unfolding split using n by (rule extract_features_missing)
  have "n \<in> set (names fi)" by (simp add: split)
  with n predict_missing [OF loaded ex] detailed_analysis_missing [OF loaded ex]
  show "\<exists>n \<in> set (names fi). map_of d n = None
               \<and> predict P g (Inr (JObj d)) =
                   (\<lparr> code = 400,
                       body = Error_body (Text (''Missing feature: '' @ n))
                                (Some [(''validation'', ''processing'')]) \<rparr>, [])
               \<and> detailed_analysis P g (Inr (JObj d)) =
                   (\<lparr> code = 400,
                       body = Error_body (Text (''Missing feature: '' @ n)) None \<rparr>, [])"
    by blast
qed

theorem missing_feature_gives_400_witness:
  "model (sample_globals trainer_features) = Some sample_model
   \<and> scaler (sample_globals trainer_features) = Some sample_scaler
   \<and> (\<exists>k \<in> set trainer_features. map_of test_data k = None)
   \<and> snd (predict sample_float_of_str (sample_globals trainer_features) (Inr (JObj test_data))) = []
   \<and> snd (detailed_analysis sample_float_of_str (sample_globals trainer_features)
             (Inr (JObj test_data))) = []
   \<and> (\<exists>n \<in> set trainer_features. map_of test_data n = None
         \<and> predict sample_float_of_str (sample_globals trainer_features) (Inr (JObj test_data)) =
             (\<lparr> code = 400,
                 body = Error_body (Text (''Missing feature: '' @ n))
                          (Some [(''validation'', ''processing'')]) \<rparr>, [])
         \<and> detailed_analysis sample_float_of_str (sample_globals trainer_features)
              (Inr (JObj test_data)) =
             (\<lparr> code = 400,
                 body = Error_body (Text (''Missing feature: '' @ n)) None \<rparr>, []))"
proof -
  have m: "model (sample_globals trainer_features) = Some sample_model"
    and s: "scaler (sample_globals trainer_features) = Some sample_scaler"
    and f: "feature_info (sample_globals trainer_features) =
              Some \<lparr> names = trainer_features,
                     descriptions = map (\<lambda>n. (n, n)) trainer_features \<rparr>"
    by (simp_all add: sample_globals_def)
  have lacks: "\<exists>k \<in> set (names \<lparr> names = trainer_features,
                     descriptions = map (\<lambda>n. (n, n)) trainer_features \<rparr>). map_of test_data k = None"
    by (simp add: test_data_def trainer_features_def)
  have coercible: "\<forall>(k, v) \<in> set test_data. \<exists>x. py_float sample_float_of_str v = Inr x"
    unfolding test_data_def by (simp del: py_float.simps add: py_float_numeric)
  show ?thesis
    using missing_feature_gives_400 [OF m s f lacks, of sample_float_of_str] m s lacks coercible
    by simp
qed

text \<open>
  Claim C9. The name reported is the earliest absent one in the order of
  \<^verbatim>\<open>feature_info['names']\<close>: when the names before \<open>n\<close> are present with coercible
  values and \<open>n\<close> is absent, both handlers answer \<^verbatim>\<open>Missing feature: n\<close>. The loop
  stops there: what follows \<open>n\<close> in the list has no influence on the extraction, and a
  later name that is absent as well is not the one reported.
\<close>

theorem earliest_missing_feature_reported:
  assumes loaded: "model g = Some m" "scaler g = Some s" "feature_info g = Some fi"
    and order: "names fi = pre @ n # post"
    and present: "\<forall>k \<in> set pre. \<exists>v x. map_of d k = Some v \<and> py_float P v = Inr x"
    and absent: "map_of d n = None"
  shows "predict P g (Inr (JObj d)) =
           (\<lparr> code = 400,
               body = Error_body (Text (''Missing feature: '' @ n))
                        (Some [(''validation'', ''processing'')]) \<rparr>, [])
       \<and> detailed_analysis P g (Inr (JObj d)) =
           (\<lparr> code = 400, body = Error_body (Text (''Missing feature: '' @ n)) None \<rparr>, [])
       \<and> extract_features P (JObj d) (pre @ n # post) [] = extract_features P (JObj d) (pre @ [n]) []
       \<and> (\<forall>k \<in> set post. map_of d k = None \<longrightarrow> k \<noteq> n \<longrightarrow>
             fst (predict P g (Inr (JObj d))) \<noteq>
               \<lparr> code = 400,
                 body = Error_body (Text (''Missing feature: '' @ k))
                          (Some [(''validation'', ''processing'')]) \<rparr>
           \<and> fst (detailed_analysis P g (Inr (JObj d))) \<noteq>
               \<lparr> code = 400, body = Error_body (Text (''Missing feature: '' @ k)) None \<rparr>)"
proof -
  have ex: "extract_features P (JObj d) (names fi) [] = Missing n"
    unfolding order using present absent by (rule extract_features_missing)
  have stop: "extract_features P (JObj d) (pre @ n # post) [] =
      extract_features P (JObj d) (pre @ [n]) []"
    using extract_features_missing [OF present absent, of post "[]"]
      extract_features_missing [OF present absent, of "[]" "[]"] by simp
  show ?thesis
    using predict_missing [OF loaded ex] detailed_analysis_missing [OF loaded ex] stop
    by simp
qed

theorem earliest_missing_feature_reported_witness:
  "predict sample_float_of_str (sample_globals test_data_names)
      (Inr (JObj [(''particle_size_nm'', JInt 30), (''ph'', JInt 7)])) =
     (\<lparr> code = 400,
         body = Error_body (Text ''Missing feature: surface_area_m2g'')
                  (Some [(''validation'', ''processing'')]) \<rparr>, [])
   \<and> detailed_analysis sample_float_of_str (sample_globals test_data_names)
        (Inr (JObj [(''particle_size_nm'', JInt 30), (''ph'', JInt 7)])) =
       (\<lparr> code = 400, body = Error_body (Text ''Missing feature: surface_area_m2g'') None \<rparr>, [])
   \<and> map_of [(''particle_size_nm'', JInt 30), (''ph'', JInt 7)] ''surface_area_m2g'' = None
   \<and> map_of [(''particle_size_nm'', JInt 30), (''ph'', JInt 7)] ''concentration_mgl'' = None"
proof -
  let ?d = "[(''particle_size_nm'', JInt 30), (''ph'', JInt 7)]"
  let ?post = "[''concentration_mgl'', ''ph'', ''temperature_c'', ''zeta_potential_mv'',
      ''material_type'', ''exposure_time_h'', ''aspect_ratio'']"
  have m: "model (sample_globals test_data_names) = Some sample_model"
    and s: "scaler (sample_globals test_data_names) = Some sample_scaler"
    and f: "feature_info (sample_globals test_data_names) =
              Some \<lparr> names = test_data_names,
                     descriptions = map (\<lambda>n. (n, n)) test_data_names \<rparr>"
    by (simp_all add: sample_globals_def)
  have order: "names \<lparr> names = test_data_names,
                     descriptions = map (\<lambda>n. (n, n)) test_data_names \<rparr> =
                 [''particle_size_nm''] @ ''surface_area_m2g'' # ?post"
    by (simp add: test_data_names_def)
  have present: "\<forall>k \<in> set [''particle_size_nm''].
      \<exists>v x. map_of ?d k = Some v \<and> py_float sample_float_of_str v = Inr x"
    by simp
  have absent: "map_of ?d ''surface_area_m2g'' = None"
    by simp
  show ?thesis
    using earliest_missing_feature_reported [OF m s f order present absent]
    by simp
qed

text \<open>
  Claim C8, as amended. With the artifacts loaded and a non-empty feature list whose
  first name is \<open>n\<close>: when \<^verbatim>\<open>get_json\<close> itself raises, the response is the generic 500
  \<^verbatim>\<open>Prediction failed\<close> with an empty status log; when the body is JSON null, a boolean
  or a number, the membership test raises TypeError and the response is that 500 with
  the log holding the one validation entry. A JSON string or array is not a mapping
  either, but there the membership test does not raise (it is a substring test, or an
  element test): the response is 400 \<^verbatim>\<open>Missing feature: n\<close>, unless the string contains
  \<open>n\<close> or the array holds it, in which case the subscript raises and the response is
  the 500 again.
\<close>

theorem non_object_body:
  assumes loaded: "model g = Some m" "scaler g = Some s" "feature_info g = Some fi"
    and nonempty: "names fi = n # ns"
  shows "predict P g (Inl e) =
           (\<lparr> code = 500, body = Error_body (Text_exn ''Prediction failed: '' e) (Some []) \<rparr>, [])
       \<and> (data = JNull \<or> py_num data \<noteq> None \<longrightarrow>
            predict P g (Inr data) =
              (\<lparr> code = 500,
                  body = Error_body (Text_exn ''Prediction failed: '' TypeError)
                           (Some [(''validation'', ''processing'')]) \<rparr>, []))
       \<and> predict P g (Inr (JStr str)) =
            (if is_substring n str
             then \<lparr> code = 500,
                    body = Error_body (Text_exn ''Prediction failed: '' TypeError)
                             (Some [(''validation'', ''processing'')]) \<rparr>
             else \<lparr> code = 400,
                    body = Error_body (Text (''Missing feature: '' @ n))
                             (Some [(''validation'', ''processing'')]) \<rparr>, [])
       \<and> predict P g (Inr (JArr xs)) =
            (if JStr n \<in> set xs
             then \<lparr> code = 500,
                    body = Error_body (Text_exn ''Prediction failed: '' TypeError)
                             (Some [(''validation'', ''processing'')]) \<rparr>
             else \<lparr> code = 400,
                    body = Error_body (Text (''Missing feature: '' @ n))
                             (Some [(''validation'', ''processing'')]) \<rparr>, [])"
proof -
  have a: "predict P g (Inl e) =
           (\<lparr> code = 500, body = Error_body (Text_exn ''Prediction failed: '' e) (Some []) \<rparr>, [])"
    using loaded by (simp add: predict_def predict_try_def prediction_failed_def)
  have b: "data = JNull \<or> py_num data \<noteq> None \<longrightarrow>
            predict P g (Inr data) =
              (\<lparr> code = 500,
                  body = Error_body (Text_exn ''Prediction failed: '' TypeError)
                           (Some [(''validation'', ''processing'')]) \<rparr>, [])"
    using loaded nonempty
    by (cases data) (simp_all add: predict_def predict_try_def prediction_failed_def log1_def)
  have c: "predict P g (Inr (JStr str)) =
            (if is_substring n str
             then \<lparr> code = 500,
                    body = Error_body (Text_exn ''Prediction failed: '' TypeError)
                             (Some [(''validation'', ''processing'')]) \<rparr>
             else \<lparr> code = 400,
                    body = Error_body (Text (''Missing feature: '' @ n))
                             (Some [(''validation'', ''processing'')]) \<rparr>, [])"
    using loaded nonempty
    by (simp add: predict_def predict_try_def prediction_failed_def log1_def)
  have d: "predict P g (Inr (JArr xs)) =
            (if JStr n \<in> set xs
             then \<lparr> code = 500,
                    body = Error_body (Text_exn ''Prediction failed: '' TypeError)
                             (Some [(''validation'', ''processing'')]) \<rparr>
             else \<lparr> code = 400,
                    body = Error_body (Text (''Missing feature: '' @ n))
                             (Some [(''validation'', ''processing'')]) \<rparr>, [])"
    using loaded nonempty
    by (simp add: predict_def predict_try_def prediction_failed_def log1_def)
  from a b c d show ?thesis by blast
qed

theorem non_object_body_witness:
  "model (sample_globals test_data_names) = Some sample_model
   \<and> scaler (sample_globals test_data_names) = Some sample_scaler
   \<and> predict sample_float_of_str (sample_globals test_data_names) (Inr JNull) =
       (\<lparr> code = 500,
           body = Error_body (Text_exn ''Prediction failed: '' TypeError)
                    (Some [(''validation'', ''processing'')]) \<rparr>, [])
   \<and> predict sample_float_of_str (sample_globals test_data_names) (Inr (JInt 5)) =
       (\<lparr> code = 500,
           body = Error_body (Text_exn ''Prediction failed: '' TypeError)
                    (Some [(''validation'', ''processing'')]) \<rparr>, [])
   \<and> predict sample_float_of_str (sample_globals test_data_names)
        (Inr (JArr [JStr ''particle_size_nm''])) =
       (\<lparr> code = 500,
           body = Error_body (Text_exn ''Prediction failed: '' TypeError)
                    (Some [(''validation'', ''processing'')]) \<rparr>, [])"
proof -
  let ?ns = "[''surface_area_m2g'', ''concentration_mgl'', ''ph'', ''temperature_c'',
      ''zeta_potential_mv'', ''material_type'', ''exposure_time_h'', ''aspect_ratio'']"
  have m: "model (sample_globals test_data_names) = Some sample_model"
    and s: "scaler (sample_globals test_data_names) = Some sample_scaler"
    and f: "feature_info (sample_globals test_data_names) =
              Some \<lparr> names = test_data_names,
                     descriptions = map (\<lambda>n. (n, n)) test_data_names \<rparr>"
    by (simp_all add: sample_globals_def)
  have nonempty: "names \<lparr> names = test_data_names,
                     descriptions = map (\<lambda>n. (n, n)) test_data_names \<rparr> =
                   ''particle_size_nm'' # ?ns"
    by (simp add: test_data_names_def)
  show ?thesis
    using m s
      non_object_body [OF m s f nonempty, of sample_float_of_str TypeError JNull "[]"
        "[JStr ''particle_size_nm'']"]
      non_object_body [OF m s f nonempty, of sample_float_of_str TypeError "JInt 5" "[]" "[]"]
    by simp
qed

text \<open>
  The claim as first stated fails on a body that is a JSON string: the sample deployment
  answers the string \<^verbatim>\<open>"hello"\<close> with 400, not 500.
\<close>

theorem string_body_gets_400:
  "fst (predict sample_float_of_str (sample_globals test_data_names) (Inr (JStr ''hello''))) =
     \<lparr> code = 400,
       body = Error_body (Text ''Missing feature: particle_size_nm'')
                (Some [(''validation'', ''processing'')]) \<rparr>"
  by (simp add: predict_def predict_try_def sample_globals_def test_data_names_def log1_def)

section \<open>Risk interpretation\<close>

text \<open>
  Claim C6, as amended. Whenever \<^verbatim>\<open>/predict\<close> answers 200, the classifier was called on
  the scaled vector and returned at least two probabilities; the toxic-class percentage
  is the float product of the second probability with 100, the response reports it
  rounded to two places, and \<^verbatim>\<open>risk_level\<close> is \<^verbatim>\<open>High\<close> when the unrounded percentage
  exceeds 70, \<^verbatim>\<open>Medium\<close> when it exceeds 40 but not 70, and \<^verbatim>\<open>Low\<close> otherwise. Whenever
  \<^verbatim>\<open>/detailed-analysis\<close> answers 200, its \<^verbatim>\<open>overall_risk\<close> is \<^verbatim>\<open>High\<close> when the second
  probability itself exceeds the float \<^verbatim>\<open>0.7\<close>, \<^verbatim>\<open>Medium\<close> when it exceeds the float \<^verbatim>\<open>0.4\<close>
  but not \<^verbatim>\<open>0.7\<close>, and \<^verbatim>\<open>Low\<close> otherwise. The two rules are stated on different numbers
  and are not claimed to give the same bucket.
\<close>

theorem risk_buckets:
  "(predict P g req = (r, cs) \<and> code r = 200 \<longrightarrow>
      (\<exists>m res features scaled prob.
          model g = Some m
        \<and> cs = [Scaler_transform features, Predict_proba scaled, Predict scaled]
        \<and> predict_proba m scaled = Inr prob \<and> 2 \<le> length prob
        \<and> body r = Predict_body res
        \<and> pr_toxic res = np_round (fmul (prob ! 1) 100) 2
        \<and> pr_risk_level res =
            (if fmul (prob ! 1) 100 > 70 then ''High''
             else if fmul (prob ! 1) 100 > 40 then ''Medium'' else ''Low'')))
   \<and> (detailed_analysis P g req = (r', cs') \<and> code r' = 200 \<longrightarrow>
      (\<exists>m a features scaled prob.
          model g = Some m
        \<and> cs' = [Scaler_transform features, Predict_proba scaled, Predict scaled]
        \<and> predict_proba m scaled = Inr prob \<and> 2 \<le> length prob
        \<and> body r' = Analysis_body a
        \<and> an_overall_risk a =
            (if prob ! 1 > binary64 (7 / 10) then ''High''
             else if prob ! 1 > binary64 (4 / 10) then ''Medium'' else ''Low'')))"
proof (intro conjI impI)
  assume "predict P g req = (r, cs) \<and> code r = 200"
  then have "predict P g req = (r, cs)" and "code r = 200"
    by simp_all
  from answered_prediction_percentages [OF this]
  show "\<exists>m res features scaled prob.
          model g = Some m
        \<and> cs = [Scaler_transform features, Predict_proba scaled, Predict scaled]
        \<and> predict_proba m scaled = Inr prob \<and> 2 \<le> length prob
        \<and> body r = Predict_body res
        \<and> pr_toxic res = np_round (fmul (prob ! 1) 100) 2
        \<and> pr_risk_level res =
            (if fmul (prob ! 1) 100 > 70 then ''High''
             else if fmul (prob ! 1) 100 > 40 then ''Medium'' else ''Low'')"
    unfolding risk_level_of_def by blast
next
  assume "detailed_analysis P g req = (r', cs') \<and> code r' = 200"
  then have "detailed_analysis P g req = (r', cs')" and "code r' = 200"
    by simp_all
  from answered_analysis_risk [OF this]
  show "\<exists>m a features scaled prob.
          model g = Some m
        \<and> cs' = [Scaler_transform features, Predict_proba scaled, Predict scaled]
        \<and> predict_proba m scaled = Inr prob \<and> 2 \<le> length prob
        \<and> body r' = Analysis_body a
        \<and> an_overall_risk a =
            (if prob ! 1 > binary64 (7 / 10) then ''High''
             else if prob ! 1 > binary64 (4 / 10) then ''Medium'' else ''Low'')"
    unfolding overall_risk_of_def float_literals by blast
qed

theorem risk_buckets_witness:
  "code (fst (predict sample_float_of_str (sample_globals two_features)
                (Inr (JObj two_feature_data)))) = 200
   \<and> code (fst (detailed_analysis sample_float_of_str (sample_globals two_features)
                 (Inr (JObj two_feature_data)))) = 200
   \<and> (\<exists>res a prob.
         body (fst (predict sample_float_of_str (sample_globals two_features)
                      (Inr (JObj two_feature_data)))) = Predict_body res
       \<and> body (fst (detailed_analysis sample_float_of_str (sample_globals two_features)
                      (Inr (JObj two_feature_data)))) = Analysis_body a
       \<and> predict_proba sample_model [- 2, 10] = Inr prob
       \<and> fmul (prob ! 1) 100 = 75
       \<and> pr_toxic res = 75
       \<and> pr_risk_level res = ''High''
       \<and> an_overall_risk a = ''High'')"
proof -
  let ?p = "predict sample_float_of_str (sample_globals two_features) (Inr (JObj two_feature_data))"
  let ?a = "detailed_analysis sample_float_of_str (sample_globals two_features)
              (Inr (JObj two_feature_data))"
  have p: "?p = (fst ?p, snd ?p) \<and> code (fst ?p) = 200"
    by (simp add: two_feature_prediction)
  have a: "?a = (fst ?a, snd ?a) \<and> code (fst ?a) = 200"
    by (simp add: two_feature_analysis)
  have prob: "predict_proba sample_model [- 2, 10] = Inr [1 / 4, 3 / 4]"
    "fmul ([1 / 4, 3 / 4] ! 1) 100 = 75"
    by (simp_all add: sample_model_def sample_toxic_def sample_arith)
  show ?thesis
    using risk_buckets [of sample_float_of_str "sample_globals two_features"
        "Inr (JObj two_feature_data)" "fst ?p" "snd ?p" "fst ?a" "snd ?a"] p a prob
    by (simp add: two_feature_prediction two_feature_analysis)
qed

text \<open>
  The claim as first stated calls the thresholds 0.7 and 0.4 on the probability
  equivalent to the thresholds 70 and 40 on the percentage. They are not: when the
  classifier returns the float \<^verbatim>\<open>0.7000000000000001\<close> for the toxic class, its float
  product with 100 is exactly 70, so \<^verbatim>\<open>/predict\<close> reports the percentage 70 and the risk
  level \<^verbatim>\<open>Medium\<close>, while \<^verbatim>\<open>/detailed-analysis\<close> answers the same request with the overall
  risk \<^verbatim>\<open>High\<close>.
\<close>

theorem boundary_probability_buckets_differ:
  "\<exists>res a cs cs'.
      predict sample_float_of_str boundary_globals (Inr (JObj two_feature_data)) =
        (\<lparr> code = 200, body = Predict_body res \<rparr>, cs)
    \<and> pr_toxic res = 70 \<and> pr_risk_level res = ''Medium''
    \<and> detailed_analysis sample_float_of_str boundary_globals (Inr (JObj two_feature_data)) =
        (\<lparr> code = 200, body = Analysis_body a \<rparr>, cs')
    \<and> an_toxic a = 70 \<and> an_overall_risk a = ''High''"
  by (simp add: predict_def predict_try_def detailed_analysis_def detailed_analysis_try_def
      boundary_globals_def boundary_model_def two_features_def two_feature_data_def
      sample_scaler_def interpret_result_def build_analysis_def nth_err_def enumerate_eq_zip
      description_of_def recommendations_def risk_factors_def dict_get_def py_lt_def py_gt_def
      py_eq_one_def buckets_at_float_boundaries risk_level_of_def py_float_small_int
      np_round_numeral
      del: py_float.simps)

section \<open>Values sent as numeric strings\<close>

text \<open>
  Claim C2 says that every valid feature mapping (all required names present and
  coercible to float) gets a \<^verbatim>\<open>/predict\<close> response whose two percentages sum to 100
  within rounding and whose label is the argmax of the probabilities. The handler
  coerces with \<^verbatim>\<open>float\<close> when it builds the feature vector, but the risk-factor tests
  compare the raw request values. For the request of the deployment check with the
  particle size sent as the string \<^verbatim>\<open>"25"\<close>: the extraction succeeds with the value 25,
  the scaler and the classifier are called, and then the comparison of a string with 50
  raises TypeError, so the sample deployment answers 500 \<^verbatim>\<open>Prediction failed\<close>; no
  deployment answers this request with 200. (For the requests that are answered, the
  lemma \<open>answered_prediction_percentages\<close> gives the percentages and the label.)
\<close>

theorem numeric_string_value_fails:
  assumes "P ''25'' = Some 25"
  shows "extract_features P (JObj test_data_str) test_data_names [] =
           Extracted [25, 150, 100, 74 / 10, 25, - 30, 1, 24, 15 / 10]
       \<and> predict P (sample_globals test_data_names) (Inr (JObj test_data_str)) =
           (\<lparr> code = 500,
               body = Error_body (Text_exn ''Prediction failed: '' TypeError)
                 (Some [(''validation'', ''processing''), (''validation'', ''completed''),
                        (''preprocessing'', ''processing''), (''preprocessing'', ''completed''),
                        (''prediction'', ''processing''), (''prediction'', ''completed''),
                        (''interpretation'', ''processing'')]) \<rparr>,
            [Scaler_transform [25, 150, 100, 74 / 10, 25, - 30, 1, 24, 15 / 10],
             Predict_proba
               [- 25 / 10, 10, 5, - 426 / 100, - 25 / 10, - 8, - 49 / 10, - 26 / 10, - 485 / 100],
             Predict
               [- 25 / 10, 10, 5, - 426 / 100, - 25 / 10, - 8, - 49 / 10, - 26 / 10, - 485 / 100]])
       \<and> code (fst (predict P g (Inr (JObj test_data_str)))) \<noteq> 200"
proof -
  have ex: "extract_features P (JObj test_data_str) test_data_names [] =
           Extracted [25, 150, 100, 74 / 10, 25, - 30, 1, 24, 15 / 10]"
    using assms
    by (simp add: test_data_str_def test_data_names_def py_float_small_int del: py_float.simps(3))
  have run: "predict P (sample_globals test_data_names) (Inr (JObj test_data_str)) =
           (\<lparr> code = 500,
               body = Error_body (Text_exn ''Prediction failed: '' TypeError)
                 (Some [(''validation'', ''processing''), (''validation'', ''completed''),
                        (''preprocessing'', ''processing''), (''preprocessing'', ''completed''),
                        (''prediction'', ''processing''), (''prediction'', ''completed''),
                        (''interpretation'', ''processing'')]) \<rparr>,
            [Scaler_transform [25, 150, 100, 74 / 10, 25, - 30, 1, 24, 15 / 10],
             Predict_proba
               [- 25 / 10, 10, 5, - 426 / 100, - 25 / 10, - 8, - 49 / 10, - 26 / 10, - 485 / 100],
             Predict
               [- 25 / 10, 10, 5, - 426 / 100, - 25 / 10, - 8, - 49 / 10, - 26 / 10, - 485 / 100]])"
    by (simp add: predict_def predict_try_def sample_globals_def ex sample_scaler_def
        sample_model_def sample_toxic_def interpret_result_def nth_err_def
        string_value_risk_factors prediction_failed_def log7_def log5_def log3_def log1_def)
  have never: "code (fst (predict P g (Inr (JObj test_data_str)))) \<noteq> 200"
  proof
    assume ok: "code (fst (predict P g (Inr (JObj test_data_str)))) = 200"
    obtain r cs where rc: "predict P g (Inr (JObj test_data_str)) = (r, cs)"
      by (cases "predict P g (Inr (JObj test_data_str))") auto
    with ok have "code r = 200" by simp
    from predict_200 [OF rc this] obtain m s fi where
      "predict_try P m s fi (Inr (JObj test_data_str)) = (r, cs)" by blast
    from predict_try_200 [OF this \<open>code r = 200\<close>] obtain prob cls res where
      "interpret_result (JObj test_data_str) prob cls = Inr res" by auto
    then show False
      by (auto dest!: interpret_result_Inr simp: string_value_risk_factors)
  qed
  from ex run never show ?thesis by blast
qed

theorem numeric_string_value_fails_witness:
  "sample_float_of_str ''25'' = Some 25
   \<and> extract_features sample_float_of_str (JObj test_data_str) test_data_names [] =
           Extracted [25, 150, 100, 74 / 10, 25, - 30, 1, 24, 15 / 10]
   \<and> code (fst (predict sample_float_of_str (sample_globals test_data_names)
                   (Inr (JObj test_data_str)))) = 500"
proof -
  have h: "sample_float_of_str ''25'' = Some 25"
    by (simp add: sample_float_of_str_def)
  show ?thesis
    using h numeric_string_value_fails [of sample_float_of_str "sample_globals test_data_names", OF h]
    by simp
qed

text \<open>
  Claim C4 says that for every valid input the five checks are evaluated on the raw
  values and that tightening one raw value so that one more check fires never removes a
  risk factor already in the output. The checks do read the raw values, and a valid
  value that is a numeric string stops them. Take the five checked features as the
  feature list, and the request with particle size 60, surface area 150, concentration
  200, material type 1 and aspect ratio 12: it is answered 200 with the four risk
  factors other than the one for small particle size. With the particle size tightened
  to the number 30 the answer lists all five factors. With the particle size tightened
  to 30 and sent as the string \<^verbatim>\<open>"30"\<close> the mapping is still valid, the extraction gives
  30, 150, 200, 1 and 12, the scaler and the classifier are called, and then the
  comparison of the string with 50 raises TypeError: the sample deployment answers 500
  \<^verbatim>\<open>Prediction failed\<close>, so the four risk factors that were present are gone together with
  the list, and no deployment answers that request with 200. (For the requests that are
  answered, the lemmas \<open>answered_risk_factors\<close>, \<open>any_subset_fires\<close> and
  \<open>risk_factors_monotone\<close> give the list, its independence and its monotonicity.)
\<close>

theorem tightened_string_value_loses_risk_factors:
  assumes "P ''30'' = Some 30"
  shows "predict P (sample_globals checked_features) (Inr (JObj wide_particle_data)) =
           (\<lparr> code = 200,
               body = Predict_body
                 \<lparr> pr_prediction = 0,
                   pr_prediction_text = ''Non-Toxic'',
                   pr_confidence = 75,
                   pr_non_toxic = 75,
                   pr_toxic = 25,
                   pr_risk_level = ''Low'',
                   pr_risk_factors =
                     [''High surface area enhances reactivity'',
                      ''High concentration increases exposure risk'',
                      ''Metal nanoparticles can have higher toxicity'',
                      ''High aspect ratio (fiber-like) may cause inflammation''],
                   pr_status_log =
                     [(''validation'', ''processing''), (''validation'', ''completed''),
                      (''preprocessing'', ''processing''), (''preprocessing'', ''completed''),
                      (''prediction'', ''processing''), (''prediction'', ''completed''),
                      (''interpretation'', ''processing''),
                      (''interpretation'', ''completed'')] \<rparr> \<rparr>,
            [Scaler_transform [60, 150, 200, 1, 12],
             Predict_proba [1, 10, 15, - 49 / 10, - 38 / 10],
             Predict [1, 10, 15, - 49 / 10, - 38 / 10]])
       \<and> predict P (sample_globals checked_features) (Inr (JObj narrow_particle_data)) =
           (\<lparr> code = 200,
               body = Predict_body
                 \<lparr> pr_prediction = 1,
                   pr_prediction_text = ''Toxic'',
                   pr_confidence = 75,
                   pr_non_toxic = 25,
                   pr_toxic = 75,
                   pr_risk_level = ''High'',
                   pr_risk_factors =
                     [''Small particle size increases bioavailability'',
                      ''High surface area enhances reactivity'',
                      ''High concentration increases exposure risk'',
                      ''Metal nanoparticles can have higher toxicity'',
                      ''High aspect ratio (fiber-like) may cause inflammation''],
                   pr_status_log =
                     [(''validation'', ''processing''), (''validation'', ''completed''),
                      (''preprocessing'', ''processing''), (''preprocessing'', ''completed''),
                      (''prediction'', ''processing''), (''prediction'', ''completed''),
                      (''interpretation'', ''processing''),
                      (''interpretation'', ''completed'')] \<rparr> \<rparr>,
            [Scaler_transform [30, 150, 200, 1, 12],
             Predict_proba [- 2, 10, 15, - 49 / 10, - 38 / 10],
             Predict [- 2, 10, 15, - 49 / 10, - 38 / 10]])
       \<and> extract_features P (JObj narrow_string_data) checked_features [] =
           Extracted [30, 150, 200, 1, 12]
       \<and> predict P (sample_globals checked_features) (Inr (JObj narrow_string_data)) =
           (\<lparr> code = 500,
               body = Error_body (Text_exn ''Prediction failed: '' TypeError)
                 (Some [(''validation'', ''processing''), (''validation'', ''completed''),
                        (''preprocessing'', ''processing''), (''preprocessing'', ''completed''),
                        (''prediction'', ''processing''), (''prediction'', ''completed''),
                        (''interpretation'', ''processing'')]) \<rparr>,
            [Scaler_transform [30, 150, 200, 1, 12],
             Predict_proba [- 2, 10, 15, - 49 / 10, - 38 / 10],
             Predict [- 2, 10, 15, - 49 / 10, - 38 / 10]])
       \<and> code (fst (predict P g (Inr (JObj narrow_string_data)))) \<noteq> 200"
proof -
  have wide: "predict P (sample_globals checked_features) (Inr (JObj wide_particle_data)) =
           (\<lparr> code = 200,
               body = Predict_body
                 \<lparr> pr_prediction = 0,
                   pr_prediction_text = ''Non-Toxic'',
                   pr_confidence = 75,
                   pr_non_toxic = 75,
                   pr_toxic = 25,
                   pr_risk_level = ''Low'',
                   pr_risk_factors =
                     [''High surface area enhances reactivity'',
                      ''High concentration increases exposure risk'',
                      ''Metal nanoparticles can have higher toxicity'',
                      ''High aspect ratio (fiber-like) may cause inflammation''],
                   pr_status_log =
                     [(''validation'', ''processing''), (''validation'', ''completed''),
                      (''preprocessing'', ''processing''), (''preprocessing'', ''completed''),
                      (''prediction'', ''processing''), (''prediction'', ''completed''),
                      (''interpretation'', ''processing''),
                      (''interpretation'', ''completed'')] \<rparr> \<rparr>,
            [Scaler_transform [60, 150, 200, 1, 12],
             Predict_proba [1, 10, 15, - 49 / 10, - 38 / 10],
             Predict [1, 10, 15, - 49 / 10, - 38 / 10]])"
    by (simp add: wide_particle_prediction log8_def log7_def log5_def log3_def log1_def)
  have narrow: "predict P (sample_globals checked_features) (Inr (JObj narrow_particle_data)) =
           (\<lparr> code = 200,
               body = Predict_body
                 \<lparr> pr_prediction = 1,
                   pr_prediction_text = ''Toxic'',
                   pr_confidence = 75,
                   pr_non_toxic = 25,
                   pr_toxic = 75,
                   pr_risk_level = ''High'',
                   pr_risk_factors =
                     [''Small particle size increases bioavailability'',
                      ''High surface area enhances reactivity'',
                      ''High concentration increases exposure risk'',
                      ''Metal nanoparticles can have higher toxicity'',
                      ''High aspect ratio (fiber-like) may cause inflammation''],
                   pr_status_log =
                     [(''validation'', ''processing''), (''validation'', ''completed''),
                      (''preprocessing'', ''processing''), (''preprocessing'', ''completed''),
                      (''prediction'', ''processing''), (''prediction'', ''completed''),
                      (''interpretation'', ''processing''),
                      (''interpretation'', ''completed'')] \<rparr> \<rparr>,
            [Scaler_transform [30, 150, 200, 1, 12],
             Predict_proba [- 2, 10, 15, - 49 / 10, - 38 / 10],
             Predict [- 2, 10, 15, - 49 / 10, - 38 / 10]])"
    by (simp add: narrow_particle_prediction log8_def log7_def log5_def log3_def log1_def)
  note ex = narrow_string_extraction [of P, OF assms]
  have run: "predict P (sample_globals checked_features) (Inr (JObj narrow_string_data)) =
           (\<lparr> code = 500,
               body = Error_body (Text_exn ''Prediction failed: '' TypeError)
                 (Some [(''validation'', ''processing''), (''validation'', ''completed''),
                        (''preprocessing'', ''processing''), (''preprocessing'', ''completed''),
                        (''prediction'', ''processing''), (''prediction'', ''completed''),
                        (''interpretation'', ''processing'')]) \<rparr>,
            [Scaler_transform [30, 150, 200, 1, 12],
             Predict_proba [- 2, 10, 15, - 49 / 10, - 38 / 10],
             Predict [- 2, 10, 15, - 49 / 10, - 38 / 10]])"
    by (simp add: predict_def predict_try_def sample_globals_def ex sample_scaler_def
        sample_model_def sample_toxic_def interpret_result_def nth_err_def
        narrow_string_risk_factors prediction_failed_def log7_def log5_def log3_def log1_def)
  have never: "code (fst (predict P g (Inr (JObj narrow_string_data)))) \<noteq> 200"
  proof
    assume ok: "code (fst (predict P g (Inr (JObj narrow_string_data)))) = 200"
    obtain r cs where rc: "predict P g (Inr (JObj narrow_string_data)) = (r, cs)"
      by (cases "predict P g (Inr (JObj narrow_string_data))") auto
    with ok have "code r = 200" by simp
    from predict_200 [OF rc this] obtain m s fi where
      "predict_try P m s fi (Inr (JObj narrow_string_data)) = (r, cs)" by blast
    from predict_try_200 [OF this \<open>code r = 200\<close>] obtain prob cls res where
      "interpret_result (JObj narrow_string_data) prob cls = Inr res" by auto
    then show False
      by (auto dest!: interpret_result_Inr simp: narrow_string_risk_factors)
  qed
  from wide narrow ex run never show ?thesis by blast
qed

theorem tightened_string_value_loses_risk_factors_witness:
  "sample_float_of_str ''30'' = Some 30
   \<and> code (fst (predict sample_float_of_str (sample_globals checked_features)
                   (Inr (JObj wide_particle_data)))) = 200
   \<and> code (fst (predict sample_float_of_str (sample_globals checked_features)
                   (Inr (JObj narrow_particle_data)))) = 200
   \<and> extract_features sample_float_of_str (JObj narrow_string_data) checked_features [] =
           Extracted [30, 150, 200, 1, 12]
   \<and> code (fst (predict sample_float_of_str (sample_globals checked_features)
                   (Inr (JObj narrow_string_data)))) = 500"
proof -
  have h: "sample_float_of_str ''30'' = Some 30"
    by (simp add: sample_float_of_str_def)
  show ?thesis
    using h tightened_string_value_loses_risk_factors
      [of sample_float_of_str "sample_globals checked_features", OF h]
    by simp
qed

text \<open>
  Claim C5 says that for every valid input \<^verbatim>\<open>/detailed-analysis\<close> assigns each feature
  its tier, and that a particle size of 30 gives the tier \<^verbatim>\<open>High\<close> there and the
  small-particle risk factor in \<^verbatim>\<open>/predict\<close>. With the feature list \<^verbatim>\<open>particle_size_nm\<close>,
  \<^verbatim>\<open>surface_area_m2g\<close> and the particle size sent as the number 30 this is what happens:
  the entry of the particle size has the value 30 and the tier \<^verbatim>\<open>High\<close>, the surface area
  of 150 has the tier \<^verbatim>\<open>Low\<close>, and \<^verbatim>\<open>/predict\<close> lists the factors for small particle size
  and high surface area. With the particle size sent as the string \<^verbatim>\<open>"30"\<close> the mapping
  is still valid, the extraction gives 30 and 150 and the tiers are computed from them,
  but the recommendations compare the raw string with 50, which raises TypeError: the
  sample deployment answers 500 \<^verbatim>\<open>Analysis failed\<close> and no tier is returned. No deployment
  answers that request with 200, on either endpoint. (For the requests that are
  answered, the lemma \<open>detailed_analysis_entries\<close> gives the entry of each feature.)
\<close>

theorem numeric_string_analysis_fails:
  assumes "P ''30'' = Some 30"
  shows "(\<exists>a cs. detailed_analysis P (sample_globals two_features) (Inr (JObj two_feature_data)) =
                    (\<lparr> code = 200, body = Analysis_body a \<rparr>, cs)
              \<and> an_feature_analysis a =
                  [(''particle_size_nm'',
                     \<lparr> fe_value = 30, fe_description = ''particle_size_nm'',
                       fe_importance = 1 / 2, fe_risk_level = ''High'',
                       fe_normalized_value = - 2 \<rparr>),
                   (''surface_area_m2g'',
                     \<lparr> fe_value = 150, fe_description = ''surface_area_m2g'',
                       fe_importance = 1 / 4, fe_risk_level = ''Low'',
                       fe_normalized_value = 10 \<rparr>)])
       \<and> (\<exists>res cs. predict P (sample_globals two_features) (Inr (JObj two_feature_data)) =
                    (\<lparr> code = 200, body = Predict_body res \<rparr>, cs)
              \<and> pr_risk_factors res =
                  [''Small particle size increases bioavailability'',
                   ''High surface area enhances reactivity''])
       \<and> extract_features P (JObj string_particle_data) two_features [] = Extracted [30, 150]
       \<and> detailed_analysis P (sample_globals two_features) (Inr (JObj string_particle_data)) =
           (\<lparr> code = 500,
               body = Error_body (Text_exn ''Analysis failed: '' TypeError) None \<rparr>,
            [Scaler_transform [30, 150], Predict_proba [- 2, 10], Predict [- 2, 10]])
       \<and> code (fst (detailed_analysis P g (Inr (JObj string_particle_data)))) \<noteq> 200
       \<and> code (fst (predict P g (Inr (JObj string_particle_data)))) \<noteq> 200"
proof -
  have number: "\<exists>a cs. detailed_analysis P (sample_globals two_features)
                         (Inr (JObj two_feature_data)) =
                    (\<lparr> code = 200, body = Analysis_body a \<rparr>, cs)
              \<and> an_feature_analysis a =
                  [(''particle_size_nm'',
                     \<lparr> fe_value = 30, fe_description = ''particle_size_nm'',
                       fe_importance = 1 / 2, fe_risk_level = ''High'',
                       fe_normalized_value = - 2 \<rparr>),
                   (''surface_area_m2g'',
                     \<lparr> fe_value = 150, fe_description = ''surface_area_m2g'',
                       fe_importance = 1 / 4, fe_risk_level = ''Low'',
                       fe_normalized_value = 10 \<rparr>)]"
    by (simp add: two_feature_analysis)
  have factors: "\<exists>res cs. predict P (sample_globals two_features) (Inr (JObj two_feature_data)) =
                    (\<lparr> code = 200, body = Predict_body res \<rparr>, cs)
              \<and> pr_risk_factors res =
                  [''Small particle size increases bioavailability'',
                   ''High surface area enhances reactivity'']"
    by (simp add: two_feature_prediction)
  note ex = string_particle_extraction [of P, OF assms]
  have run: "detailed_analysis P (sample_globals two_features) (Inr (JObj string_particle_data)) =
           (\<lparr> code = 500,
               body = Error_body (Text_exn ''Analysis failed: '' TypeError) None \<rparr>,
            [Scaler_transform [30, 150], Predict_proba [- 2, 10], Predict [- 2, 10]])"
    by (simp add: detailed_analysis_def detailed_analysis_try_def sample_globals_def
        ex [unfolded two_features_def] sample_scaler_def sample_model_def sample_toxic_def build_analysis_def nth_err_def
        two_features_def enumerate_eq_zip description_of_def
        string_particle_recommendations analysis_failed_def del: extract_features.simps)
  have never: "code (fst (detailed_analysis P g (Inr (JObj string_particle_data)))) \<noteq> 200"
  proof
    assume ok: "code (fst (detailed_analysis P g (Inr (JObj string_particle_data)))) = 200"
    obtain r cs where rc: "detailed_analysis P g (Inr (JObj string_particle_data)) = (r, cs)"
      by (cases "detailed_analysis P g (Inr (JObj string_particle_data))") auto
    with ok have "code r = 200" by simp
    from answered_analysis_risk [OF rc this] show False
      by (auto simp: string_particle_recommendations)
  qed
  have never': "code (fst (predict P g (Inr (JObj string_particle_data)))) \<noteq> 200"
  proof
    assume ok: "code (fst (predict P g (Inr (JObj string_particle_data)))) = 200"
    obtain r cs where rc: "predict P g (Inr (JObj string_particle_data)) = (r, cs)"
      by (cases "predict P g (Inr (JObj string_particle_data))") auto
    with ok have "code r = 200" by simp
    from predict_200 [OF rc this] obtain m s fi where
      "predict_try P m s fi (Inr (JObj string_particle_data)) = (r, cs)" by blast
    from predict_try_200 [OF this \<open>code r = 200\<close>] obtain prob cls res where
      "interpret_result (JObj string_particle_data) prob cls = Inr res" by auto
    then show False
      by (auto dest!: interpret_result_Inr simp: string_particle_risk_factors)
  qed
  from number factors ex run never never' show ?thesis by blast
qed

theorem numeric_string_analysis_fails_witness:
  "sample_float_of_str ''30'' = Some 30
   \<and> code (fst (detailed_analysis sample_float_of_str (sample_globals two_features)
                   (Inr (JObj two_feature_data)))) = 200
   \<and> extract_features sample_float_of_str (JObj string_particle_data) two_features [] =
           Extracted [30, 150]
   \<and> code (fst (detailed_analysis sample_float_of_str (sample_globals two_features)
                   (Inr (JObj string_particle_data)))) = 500"
proof -
  have h: "sample_float_of_str ''30'' = Some 30"
    by (simp add: sample_float_of_str_def)
  show ?thesis
    using h numeric_string_analysis_fails
      [of sample_float_of_str "sample_globals two_features", OF h]
    by auto
qed

section \<open>The deployment scenario\<close>




section \<open>Health endpoint and load state\<close>

text \<open>
  Claim C10. \<^verbatim>\<open>/health\<close> answers 200 with \<^verbatim>\<open>status\<close> equal to the literal \<^verbatim>\<open>healthy\<close> in
  every load state, also when the model, the scaler and the feature metadata are all
  \<^verbatim>\<open>None\<close>; only the three flags depend on the state, each being true exactly when its
  artifact is not \<^verbatim>\<open>None\<close>.
\<close>

theorem health_check_always_healthy:
  "code (health_check g) = 200
   \<and> body (health_check g) =
       Health_body \<lparr> h_status = ''healthy'',
                     h_model_loaded = (model g \<noteq> None),
                     h_scaler_loaded = (scaler g \<noteq> None),
                     h_features_loaded = (feature_info g \<noteq> None) \<rparr>
   \<and> health_check \<lparr> model = None, scaler = None, feature_info = None \<rparr> =
       \<lparr> code = 200,
         body = Health_body \<lparr> h_status = ''healthy'', h_model_loaded = False,
                              h_scaler_loaded = False, h_features_loaded = False \<rparr> \<rparr>"
  by (simp add: health_check_def)

text \<open>
  Claim C7. When one of the three artifacts is \<^verbatim>\<open>None\<close>, \<^verbatim>\<open>/health\<close> reports the flag of
  each missing artifact as false, and every request to \<^verbatim>\<open>/predict\<close>, whatever its body,
  gets the 500 response \<^verbatim>\<open>Model not loaded properly\<close>: no status log has been started
  and neither the scaler nor the classifier has been called.
\<close>

theorem unloaded_artifact_gives_500:
  assumes "model g = None \<or> scaler g = None \<or> feature_info g = None"
  shows "(\<exists>h. body (health_check g) = Health_body h
              \<and> h_model_loaded h = (model g \<noteq> None)
              \<and> h_scaler_loaded h = (scaler g \<noteq> None)
              \<and> h_features_loaded h = (feature_info g \<noteq> None)
              \<and> \<not> (h_model_loaded h \<and> h_scaler_loaded h \<and> h_features_loaded h))
       \<and> predict P g req =
           (\<lparr> code = 500, body = Error_body (Text ''Model not loaded properly'') None \<rparr>, [])"
  using assms
  by (auto simp: health_check_def predict_def not_loaded_def split: option.splits)

theorem unloaded_artifact_gives_500_witness:
  "(model (sample_globals trainer_features\<lparr>scaler := None\<rparr>) = None
      \<or> scaler (sample_globals trainer_features\<lparr>scaler := None\<rparr>) = None
      \<or> feature_info (sample_globals trainer_features\<lparr>scaler := None\<rparr>) = None)
   \<and> predict sample_float_of_str (sample_globals trainer_features\<lparr>scaler := None\<rparr>)
        (Inr (JObj test_data)) =
       (\<lparr> code = 500, body = Error_body (Text ''Model not loaded properly'') None \<rparr>, [])
   \<and> body (health_check (sample_globals trainer_features\<lparr>scaler := None\<rparr>)) =
       Health_body \<lparr> h_status = ''healthy'', h_model_loaded = True,
                     h_scaler_loaded = False, h_features_loaded = True \<rparr>"
proof -
  have unloaded: "model (sample_globals trainer_features\<lparr>scaler := None\<rparr>) = None
      \<or> scaler (sample_globals trainer_features\<lparr>scaler := None\<rparr>) = None
      \<or> feature_info (sample_globals trainer_features\<lparr>scaler := None\<rparr>) = None"
    by simp
  show ?thesis
    using unloaded
      unloaded_artifact_gives_500 [OF unloaded, of sample_float_of_str "Inr (JObj test_data)"]
    by (simp add: health_check_def sample_globals_def)
qed

end
